theory Spec2Isabelle
  imports Main
begin

section \<open>JavaScript values and errors\<close>

text \<open>
  The messages handled by the processor are parsed JSON, and the code reads them with
  plain property access, so the model keeps them dynamically typed. \<open>JNum\<close> carries
  integers: no branch of the code looks at a fractional number.
\<close>

datatype jsval =
    JUndefined
  | JNull
  | JBool bool
  | JNum int
  | JStr string
  | JArr "jsval list"
  | JObj "(string \<times> jsval) list"

text \<open>
  Everything the code can throw. \<open>ServiceError\<close> is an error raised by an external
  collaborator (object storage, HTTP client, token provider); only storage errors carry a
  \<open>statusCode\<close> property.
\<close>

datatype js_error =
    SyntaxError string
  | TypeError string
  | Error string
  | ServiceError "int option" string

fun statusCode :: "js_error \<Rightarrow> jsval" where
  "statusCode (ServiceError (Some n) msg) = JNum n"
| "statusCode e = JUndefined"

fun truthy :: "jsval \<Rightarrow> bool" where
  "truthy JUndefined = False"
| "truthy JNull = False"
| "truthy (JBool b) = b"
| "truthy (JNum n) = (n \<noteq> 0)"
| "truthy (JStr s) = (s \<noteq> [])"
| "truthy (JArr xs) = True"
| "truthy (JObj kv) = True"

fun digits :: "nat \<Rightarrow> string" where
  "digits n =
     (if n < 10 then [''0123456789'' ! n]
      else digits (n div 10) @ [''0123456789'' ! (n mod 10)])"

declare digits.simps [simp del]

text \<open>
  String conversion, as performed by template literals and by \<open>+\<close> with a string
  operand. An array joins its elements with commas (null and undefined elements print as
  the empty string), a plain object prints as \<open>[object Object]\<close>. An integer prints in
  decimal, which is what JavaScript does below \<open>10^21\<close> in magnitude.
\<close>

fun ToString :: "jsval \<Rightarrow> string" and ToString_elems :: "jsval list \<Rightarrow> string" where
  "ToString JUndefined = ''undefined''"
| "ToString JNull = ''null''"
| "ToString (JBool b) = (if b then ''true'' else ''false'')"
| "ToString (JNum n) = (if n < 0 then CHR ''-'' # digits (nat (- n)) else digits (nat n))"
| "ToString (JStr s) = s"
| "ToString (JArr xs) = ToString_elems xs"
| "ToString (JObj kv) = ''[object Object]''"
| "ToString_elems [] = []"
| "ToString_elems (x # xs) =
     (if x = JUndefined \<or> x = JNull then [] else ToString x)
       @ (if xs = [] then [] else CHR '','' # ToString_elems xs)"

text \<open>
  Property read \<open>v.p\<close>. Reading a property of \<open>undefined\<close> or \<open>null\<close> throws a
  TypeError; a missing property reads as \<open>undefined\<close>. The only inherited property the
  code reads is \<open>length\<close>.
\<close>

definition js_get :: "jsval \<Rightarrow> string \<Rightarrow> js_error + jsval" where
  "js_get v p =
     (case v of
        JUndefined \<Rightarrow> Inl (TypeError p)
      | JNull \<Rightarrow> Inl (TypeError p)
      | JObj kv \<Rightarrow> Inr (case map_of kv p of None \<Rightarrow> JUndefined | Some x \<Rightarrow> x)
      | JArr xs \<Rightarrow> Inr (if p = ''length'' then JNum (int (length xs)) else JUndefined)
      | JStr s \<Rightarrow> Inr (if p = ''length'' then JNum (int (length s)) else JUndefined)
      | _ \<Rightarrow> Inr JUndefined)"

text \<open>Indexed read \<open>v[0]\<close>.\<close>

definition js_first :: "jsval \<Rightarrow> js_error + jsval" where
  "js_first v =
     (case v of
        JUndefined \<Rightarrow> Inl (TypeError ''0'')
      | JNull \<Rightarrow> Inl (TypeError ''0'')
      | JObj kv \<Rightarrow> Inr (case map_of kv ''0'' of None \<Rightarrow> JUndefined | Some x \<Rightarrow> x)
      | JArr xs \<Rightarrow> Inr (case xs of [] \<Rightarrow> JUndefined | x # _ \<Rightarrow> x)
      | JStr s \<Rightarrow> Inr (case s of [] \<Rightarrow> JUndefined | c # _ \<Rightarrow> JStr [c])
      | _ \<Rightarrow> Inr JUndefined)"

fun is_prefix :: "string \<Rightarrow> string \<Rightarrow> bool" where
  "is_prefix [] s = True"
| "is_prefix (c # cs) [] = False"
| "is_prefix (c # cs) (d # ds) = (c = d \<and> is_prefix cs ds)"

fun contains :: "string \<Rightarrow> string \<Rightarrow> bool" where
  "contains sub [] = is_prefix sub []"
| "contains sub (c # cs) = (is_prefix sub (c # cs) \<or> contains sub cs)"

section \<open>The world outside the process\<close>

text \<open>
  Every call that leaves the process is recorded, in order, in the trace. Log records are
  kept apart from it.
\<close>

datatype http_opts = Bearer string | MaxContentLength jsval | Arraybuffer

datatype event =
    S3GetObject string string
  | S3Upload string string string
  | S3CopyObject string string string
  | S3DeleteObject string string
  | HttpReq string jsval jsval http_opts
  | M2MToken
  | CommitOffset string int int

datatype log_level = LInfo | LDebug | LError

datatype log_arg = Msg string | Err js_error

record world =
  s3 :: "string \<times> string \<Rightarrow> string option"
  reviewTypes :: "string \<Rightarrow> jsval option"
  trace :: "event list"
  logs :: "(log_level \<times> log_arg) list"

text \<open>
  The configuration and the behaviour of the external collaborators. A collaborator answers
  as a function of the calls made so far, so it may fail at any call and answer differently
  to a repeated request.
\<close>

record env =
  SUBMISSION_CREATE_TOPIC :: string
  AVSCAN_TOPIC :: string
  DMZ_BUCKET :: string
  CLEAN_BUCKET :: string
  QUARANTINE_BUCKET :: string
  SUBMISSION_API_URL :: string
  ANTIVIRUS_API_URL :: string
  MAXFILESIZE :: jsval
  JSON_parse :: "string \<Rightarrow> js_error + jsval"
  JSON_stringify :: "jsval \<Rightarrow> string"
  AmazonS3URI :: "jsval \<Rightarrow> js_error + jsval \<times> jsval"
  s3_fault :: "event list \<Rightarrow> event \<Rightarrow> js_error option"
  http :: "event list \<Rightarrow> event \<Rightarrow> js_error + jsval"
  getMachineToken :: "event list \<Rightarrow> js_error + string"
  uuid :: "event list \<Rightarrow> string"

section \<open>Sequential composition with exceptions\<close>

type_synonym 'a io = "world \<Rightarrow> (js_error + 'a) \<times> world"

definition ret :: "'a \<Rightarrow> 'a io" where
  "ret x = (\<lambda>w. (Inr x, w))"

definition throw :: "js_error \<Rightarrow> 'a io" where
  "throw e = (\<lambda>w. (Inl e, w))"

definition lift :: "js_error + 'a \<Rightarrow> 'a io" where
  "lift r = (\<lambda>w. (r, w))"

definition bind :: "'a io \<Rightarrow> ('a \<Rightarrow> 'b io) \<Rightarrow> 'b io" where
  "bind m f = (\<lambda>w. case m w of (Inl e, w') \<Rightarrow> (Inl e, w') | (Inr x, w') \<Rightarrow> f x w')"

definition catch :: "'a io \<Rightarrow> (js_error \<Rightarrow> 'a io) \<Rightarrow> 'a io" where
  "catch m h = (\<lambda>w. case m w of (Inl e, w') \<Rightarrow> h e w' | (Inr x, w') \<Rightarrow> (Inr x, w'))"

definition emit :: "event \<Rightarrow> unit io" where
  "emit e = (\<lambda>w. (Inr (), w\<lparr>trace := trace w @ [e]\<rparr>))"

definition logger :: "log_level \<Rightarrow> log_arg \<Rightarrow> unit io" where
  "logger lvl a = (\<lambda>w. (Inr (), w\<lparr>logs := logs w @ [(lvl, a)]\<rparr>))"

section \<open>Object storage\<close>

text \<open>
  The storage client rejects a request whose bucket, key or body is not a string before
  sending anything.
\<close>

definition s3_param :: "jsval \<Rightarrow> js_error + string" where
  "s3_param v = (case v of JStr s \<Rightarrow> Inr s | _ \<Rightarrow> Inl (ServiceError None ''InvalidParameterType''))"

text \<open>
  A request is sent (and recorded); the service may then fail it, leaving the store as it
  was. Otherwise it behaves as the storage service does: reading or copying a missing object
  fails with status 404, an upload or a copy overwrites the destination, and deleting a
  missing key succeeds.
\<close>

definition s3_call :: "env \<Rightarrow> event \<Rightarrow> unit io" where
  "s3_call env e =
     (\<lambda>w. case s3_fault env (trace w) e of
             Some err \<Rightarrow> (Inl err, w\<lparr>trace := trace w @ [e]\<rparr>)
           | None \<Rightarrow> (Inr (), w\<lparr>trace := trace w @ [e]\<rparr>))"

definition s3_read :: "string \<Rightarrow> string \<Rightarrow> string io" where
  "s3_read b k =
     (\<lambda>w. case s3 w (b, k) of
             None \<Rightarrow> (Inl (ServiceError (Some 404) ''NoSuchKey''), w)
           | Some body \<Rightarrow> (Inr body, w))"

definition s3_write :: "string \<Rightarrow> string \<Rightarrow> string option \<Rightarrow> unit io" where
  "s3_write b k v = (\<lambda>w. (Inr (), w\<lparr>s3 := (s3 w)((b, k) := v)\<rparr>))"

definition getObjectAsync :: "env \<Rightarrow> jsval \<Rightarrow> jsval \<Rightarrow> jsval io" where
  "getObjectAsync env Bucket Key =
     bind (lift (s3_param Bucket)) (\<lambda>b.
     bind (lift (s3_param Key)) (\<lambda>k.
     bind (s3_call env (S3GetObject b k)) (\<lambda>_.
     bind (s3_read b k) (\<lambda>body. ret (JStr body)))))"

definition uploadAsync :: "env \<Rightarrow> jsval \<Rightarrow> jsval \<Rightarrow> jsval \<Rightarrow> unit io" where
  "uploadAsync env Bucket Key Body =
     bind (lift (s3_param Bucket)) (\<lambda>b.
     bind (lift (s3_param Key)) (\<lambda>k.
     bind (lift (s3_param Body)) (\<lambda>body.
     bind (s3_call env (S3Upload b k body)) (\<lambda>_. s3_write b k (Some body)))))"

text \<open>
  The copy source is the text \<open>/bucket/key\<close>; the service splits it at the first slash
  after the leading one.
\<close>

definition parse_copy_source :: "string \<Rightarrow> string \<times> string" where
  "parse_copy_source cs =
     (let p = (case cs of [] \<Rightarrow> [] | c # r \<Rightarrow> if c = CHR ''/'' then r else c # r)
      in (takeWhile (\<lambda>c. c \<noteq> CHR ''/'') p, drop 1 (dropWhile (\<lambda>c. c \<noteq> CHR ''/'') p)))"

definition copyObjectAsync :: "env \<Rightarrow> jsval \<Rightarrow> string \<Rightarrow> jsval \<Rightarrow> unit io" where
  "copyObjectAsync env Bucket CopySource Key =
     bind (lift (s3_param Bucket)) (\<lambda>b.
     bind (lift (s3_param Key)) (\<lambda>k.
     bind (s3_call env (S3CopyObject b CopySource k)) (\<lambda>_.
     bind (s3_read (fst (parse_copy_source CopySource)) (snd (parse_copy_source CopySource))) (\<lambda>body.
       s3_write b k (Some body)))))"

definition deleteObjectAsync :: "env \<Rightarrow> jsval \<Rightarrow> jsval \<Rightarrow> unit io" where
  "deleteObjectAsync env Bucket Key =
     bind (lift (s3_param Bucket)) (\<lambda>b.
     bind (lift (s3_param Key)) (\<lambda>k.
     bind (s3_call env (S3DeleteObject b k)) (\<lambda>_. s3_write b k None)))"

section \<open>HTTP client and token provider\<close>

text \<open>A request is sent (and recorded); a successful one answers a response object with its data.\<close>

definition http_call :: "env \<Rightarrow> event \<Rightarrow> jsval io" where
  "http_call env e =
     (\<lambda>w. case http env (trace w) e of
             Inl err \<Rightarrow> (Inl err, w\<lparr>trace := trace w @ [e]\<rparr>)
           | Inr d \<Rightarrow> (Inr (JObj [(''data'', d)]), w\<lparr>trace := trace w @ [e]\<rparr>))"

definition getM2Mtoken :: "env \<Rightarrow> string io" where
  "getM2Mtoken env =
     (\<lambda>w. (getMachineToken env (trace w), w\<lparr>trace := trace w @ [M2MToken]\<rparr>))"

section \<open>helper: requests to the Submission API, review types, download, move\<close>

definition reqToSubmissionAPI :: "env \<Rightarrow> string \<Rightarrow> string \<Rightarrow> jsval \<Rightarrow> jsval io" where
  "reqToSubmissionAPI env reqType path reqBody =
     bind (getM2Mtoken env) (\<lambda>token.
       if reqType = ''POST'' then
         bind (http_call env (HttpReq ''POST'' (JStr path) reqBody (Bearer token))) (\<lambda>_. ret JUndefined)
       else if reqType = ''PATCH'' then
         bind (http_call env (HttpReq ''PATCH'' (JStr path) reqBody (Bearer token))) (\<lambda>_. ret JUndefined)
       else if reqType = ''GET'' then
         bind (http_call env (HttpReq ''GET'' (JStr path) JUndefined (Bearer token))) (\<lambda>response. ret response)
       else ret JUndefined)"

text \<open>
  The process-wide cache \<open>reviewTypes\<close>: a name without an entry reads as
  \<open>undefined\<close>. (The cache is a plain object; names of properties that every object
  inherits are not review-type names and are left out of the model.)
\<close>

definition cached :: "world \<Rightarrow> string \<Rightarrow> jsval" where
  "cached w name = (case reviewTypes w name of None \<Rightarrow> JUndefined | Some v \<Rightarrow> v)"

definition cache_put :: "string \<Rightarrow> jsval \<Rightarrow> unit io" where
  "cache_put name v = (\<lambda>w. (Inr (), w\<lparr>reviewTypes := (reviewTypes w)(name \<mapsto> v)\<rparr>))"

definition getreviewTypeId :: "env \<Rightarrow> string \<Rightarrow> jsval io" where
  "getreviewTypeId env reviewTypeName =
     (\<lambda>w. if truthy (cached w reviewTypeName) then (Inr (cached w reviewTypeName), w)
          else
            bind (reqToSubmissionAPI env ''GET''
                    (SUBMISSION_API_URL env @ ''/reviewTypes?name='' @ reviewTypeName) (JObj [])) (\<lambda>response.
            bind (lift (js_get response ''data'')) (\<lambda>data.
            bind (lift (js_get data ''length'')) (\<lambda>len.
              if len \<noteq> JNum 0 then
                bind (lift (js_first data)) (\<lambda>first.
                bind (lift (js_get first ''id'')) (\<lambda>i.
                bind (cache_put reviewTypeName i) (\<lambda>_.
                  (\<lambda>w'. (Inr (cached w' reviewTypeName), w')))))
              else ret JNull))) w)"

text \<open>The test \<open>/.*amazonaws.*/.test(fileURL)\<close>: the text occurs somewhere in the URL.\<close>

definition matches_amazonaws :: "jsval \<Rightarrow> bool" where
  "matches_amazonaws fileURL = contains ''amazonaws'' (ToString fileURL)"

definition downloadFile :: "env \<Rightarrow> jsval \<Rightarrow> jsval io" where
  "downloadFile env fileURL =
     (if matches_amazonaws fileURL then
        bind (lift (AmazonS3URI env fileURL)) (\<lambda>(bucket, key).
        bind (logger LInfo (Msg (''downloadFile(): file is on S3 '' @ ToString bucket @ '' / '' @ ToString key))) (\<lambda>_.
        bind (getObjectAsync env bucket key) (\<lambda>Body. ret Body)))
      else
        bind (logger LInfo (Msg (''downloadFile(): file is (hopefully) a public URL at '' @ ToString fileURL))) (\<lambda>_.
        bind (http_call env (HttpReq ''GET'' fileURL JUndefined Arraybuffer)) (\<lambda>downloadedFile.
          lift (js_get downloadedFile ''data''))))"

definition moveFile :: "env \<Rightarrow> string \<Rightarrow> jsval \<Rightarrow> string \<Rightarrow> jsval \<Rightarrow> unit io" where
  "moveFile env sourceBucket sourceKey targetBucket targetKey =
     bind (copyObjectAsync env (JStr targetBucket)
             (''/'' @ sourceBucket @ ''/'' @ ToString sourceKey) targetKey) (\<lambda>_.
     deleteObjectAsync env (JStr sourceBucket) sourceKey)"

section \<open>ProcessorService\<close>

definition AV_SCAN :: string where
  "AV_SCAN = ''Virus Scan''"

definition REVIEW_SCORECARDID :: string where
  "REVIEW_SCORECARDID = ''30001850''"

definition processCreate :: "env \<Rightarrow> jsval \<Rightarrow> jsval io" where
  "processCreate env message =
     bind (lift (js_get message ''payload'')) (\<lambda>payload.
     bind (lift (js_get payload ''id'')) (\<lambda>id.
     bind (lift (js_get payload ''resource'')) (\<lambda>resource.
     bind (lift (js_get payload ''fileType'')) (\<lambda>fileType.
       if resource \<noteq> JStr ''submission'' then
         bind (logger LInfo (Msg (''Ignoring messages of resource type: '' @ ToString resource))) (\<lambda>_.
           ret (JBool False))
       else
         let fileName = ToString id @ ''.'' @ ToString fileType in
         bind (catch
                 (bind (getObjectAsync env (JStr (DMZ_BUCKET env)) (JStr fileName)) (\<lambda>_.
                    logger LInfo (Msg (''The file '' @ fileName @ '' is already in DMZ area.''))))
                 (\<lambda>e. if statusCode e \<noteq> JNum 404 then throw e
                       else
                         bind (logger LInfo (Msg (''The file '' @ fileName
                                 @ '' is not in DMZ area, copying it to DMZ area.''))) (\<lambda>_.
                         bind (lift (js_get payload ''url'')) (\<lambda>url.
                         bind (downloadFile env url) (\<lambda>downloadedFile.
                           uploadAsync env (JStr (DMZ_BUCKET env)) (JStr fileName) downloadedFile))))) (\<lambda>_.
         let dmzFileURL = ''https://s3.amazonaws.com/'' @ DMZ_BUCKET env @ ''/'' @ fileName in
         bind (logger LInfo (Msg (''Sending request to scan the file '' @ fileName @ ''.''))) (\<lambda>_.
         let reqBody = JObj [(''submissionId'', id), (''url'', JStr dmzFileURL), (''fileName'', JStr fileName)] in
         bind (http_call env (HttpReq ''POST'' (JStr (ANTIVIRUS_API_URL env)) reqBody
                 (MaxContentLength (MAXFILESIZE env)))) (\<lambda>_.
           ret (JBool True))))))))"

definition processScan :: "env \<Rightarrow> jsval \<Rightarrow> jsval io" where
  "processScan env message =
     bind (lift (js_get message ''payload'')) (\<lambda>payload.
     bind (lift (js_get payload ''submissionId'')) (\<lambda>submissionId.
     bind (lift (js_get payload ''fileName'')) (\<lambda>fileName.
     bind (lift (js_get payload ''isInfected'')) (\<lambda>isInfected.
     let destinationBucket = (if \<not> truthy isInfected then CLEAN_BUCKET env else QUARANTINE_BUCKET env) in
     bind (if \<not> truthy isInfected
           then logger LInfo (Msg (''The file '' @ ToString fileName
                  @ '' is clean. Moving file to clean submission area.''))
           else logger LInfo (Msg (''The file '' @ ToString fileName
                  @ '' is infected. Moving file to quarantine area.''))) (\<lambda>_.
     bind (moveFile env (DMZ_BUCKET env) fileName destinationBucket fileName) (\<lambda>_.
     let movedS3Obj = ''https://s3.amazonaws.com/'' @ destinationBucket @ ''/'' @ ToString fileName in
     bind (logger LDebug (Msg (''moved file: '' @ JSON_stringify env (JStr movedS3Obj)))) (\<lambda>_.
     bind (logger LInfo (Msg ''Update Submission final location using Submission API'')) (\<lambda>_.
     bind (reqToSubmissionAPI env ''PATCH''
             (SUBMISSION_API_URL env @ ''/submissions/'' @ ToString submissionId)
             (JObj [(''url'', JStr movedS3Obj)])) (\<lambda>_.
     bind (logger LInfo (Msg ''Create review using Submission API'')) (\<lambda>_.
     bind (\<lambda>w. (Inr (uuid env (trace w)), w)) (\<lambda>reviewerId.
     bind (getreviewTypeId env AV_SCAN) (\<lambda>typeId.
     bind (reqToSubmissionAPI env ''POST'' (SUBMISSION_API_URL env @ ''/reviews'')
             (JObj [(''score'', JNum (if truthy isInfected then 0 else 100)),
                    (''reviewerId'', JStr reviewerId),
                    (''submissionId'', submissionId),
                    (''scoreCardId'', JStr REVIEW_SCORECARDID),
                    (''typeId'', typeId)])) (\<lambda>_.
       ret JUndefined)))))))))))))"

section \<open>The message dispatcher\<close>

text \<open>A message of a batch: its offset and the bytes of its value, read as UTF-8 text.\<close>

record kafka_message =
  m_offset :: int
  m_value :: string

text \<open>The condition of the scan-topic filter: the payload is read only when the topic is the scan topic.\<close>

definition status_filter :: "env \<Rightarrow> jsval \<Rightarrow> js_error + bool" where
  "status_filter env messageJSON =
     (case js_get messageJSON ''topic'' of
        Inl e \<Rightarrow> Inl e
      | Inr t \<Rightarrow>
          if t = JStr (AVSCAN_TOPIC env) then
            (case js_get messageJSON ''payload'' of
               Inl e \<Rightarrow> Inl e
             | Inr payload \<Rightarrow>
                 (case js_get payload ''status'' of
                    Inl e \<Rightarrow> Inl e
                  | Inr status \<Rightarrow> Inr (status \<noteq> JStr ''scanned'')))
          else Inr False)"

text \<open>The condition of the create-topic filter.\<close>

definition fileType_filter :: "env \<Rightarrow> string \<Rightarrow> jsval \<Rightarrow> js_error + bool" where
  "fileType_filter env topic messageJSON =
     (if topic = SUBMISSION_CREATE_TOPIC env then
        (case js_get messageJSON ''payload'' of
           Inl e \<Rightarrow> Inl e
         | Inr payload \<Rightarrow>
             (case js_get payload ''fileType'' of
                Inl e \<Rightarrow> Inl e
              | Inr fileType \<Rightarrow> Inr (fileType = JStr ''url'')))
      else Inr False)"

text \<open>The routed workflow: the body handed to \<open>co\<close>.\<close>

definition workflow :: "env \<Rightarrow> string \<Rightarrow> jsval \<Rightarrow> unit io" where
  "workflow env topic messageJSON =
     (if topic = SUBMISSION_CREATE_TOPIC env then
        bind (processCreate env messageJSON) (\<lambda>_. ret ())
      else if topic = AVSCAN_TOPIC env then
        bind (processScan env messageJSON) (\<lambda>_. ret ())
      else throw (Error (''Invalid topic: '' @ topic)))"

text \<open>The first log record of the callback: the message as received.\<close>

definition received :: "string \<Rightarrow> int \<Rightarrow> kafka_message \<Rightarrow> unit io" where
  "received topic partition' m =
     logger LInfo (Msg (''Handle Kafka event message; Topic: '' @ topic
       @ ''; Partition: '' @ ToString (JNum partition')
       @ ''; Offset: '' @ ToString (JNum (m_offset m))
       @ ''; Message: '' @ m_value m @ ''.''))"

text \<open>
  The callback run for one message. The early returns yield normally; an exception outside
  the two handlers (around \<open>JSON.parse\<close> and after the workflow) leaves the callback.
\<close>

definition handleMessage :: "env \<Rightarrow> string \<Rightarrow> int \<Rightarrow> kafka_message \<Rightarrow> unit io" where
  "handleMessage env topic partition' m =
     (let message = m_value m in
      bind (received topic partition' m) (\<lambda>_.
      case JSON_parse env message of
        Inl e \<Rightarrow>
          bind (logger LError (Msg ''Invalid message JSON.'')) (\<lambda>_. logger LError (Err e))
      | Inr messageJSON \<Rightarrow>
          bind (lift (js_get messageJSON ''topic'')) (\<lambda>t.
          if t \<noteq> JStr topic then
            logger LError (Msg (''The message topic '' @ ToString t
              @ '' doesn't match the Kafka topic '' @ topic @ ''.''))
          else
            bind (lift (status_filter env messageJSON)) (\<lambda>skip.
            if skip then
              bind (lift (js_get messageJSON ''payload'')) (\<lambda>payload.
              bind (lift (js_get payload ''status'')) (\<lambda>status.
                logger LDebug (Msg (''Ignoring message in topic '' @ ToString t
                  @ '' with status '' @ ToString status))))
            else
              bind (lift (fileType_filter env topic messageJSON)) (\<lambda>skip'.
              if skip' then
                logger LDebug (Msg (''Ignoring message in topic '' @ ToString t
                  @ '' with file type as url''))
              else
                catch
                  (bind (workflow env topic messageJSON) (\<lambda>_.
                     emit (CommitOffset topic partition' (m_offset m))))
                  (\<lambda>err. logger LError (Err err)))))))"

text \<open>\<open>Promise.each\<close>: the messages one after the other; the first exception ends the batch.\<close>

fun dataHandler :: "env \<Rightarrow> kafka_message list \<Rightarrow> string \<Rightarrow> int \<Rightarrow> unit io" where
  "dataHandler env [] topic partition' = ret ()"
| "dataHandler env (m # messageSet) topic partition' =
     bind (handleMessage env topic partition' m) (\<lambda>_. dataHandler env messageSet topic partition')"

section \<open>Observations on traces\<close>

fun is_commit :: "event \<Rightarrow> bool" where
  "is_commit (CommitOffset topic partition' off) = True"
| "is_commit e = False"

definition commits :: "event list \<Rightarrow> event list" where
  "commits evs = filter is_commit evs"

fun is_http :: "event \<Rightarrow> bool" where
  "is_http (HttpReq method url body opts) = True"
| "is_http e = False"

definition network_calls :: "event list \<Rightarrow> event list" where
  "network_calls evs = filter is_http evs"

text \<open>A computation is quiet when the calls it adds to the trace include no offset commit.\<close>

definition quiet :: "'a io \<Rightarrow> bool" where
  "quiet m = (\<forall>w. \<exists>evs. trace (snd (m w)) = trace w @ evs \<and> commits evs = [])"

section \<open>A concrete environment\<close>

text \<open>
  Collaborators that always succeed: the Submission API knows one review type, a download
  answers fixed bytes, the S3 URI parser accepts one URL, and the JSON parser knows the
  messages of the two scenarios of the specification.
\<close>

definition demo_http :: "event list \<Rightarrow> event \<Rightarrow> js_error + jsval" where
  "demo_http h e =
     (case e of
        HttpReq method url body opts \<Rightarrow>
          if method = ''GET'' \<and> opts = Arraybuffer then Inr (JStr ''PK-file-bytes'')
          else if method = ''GET'' then Inr (JArr [JObj [(''id'', JStr ''rt-virus-scan''), (''name'', JStr ''Virus Scan'')]])
          else Inr (JObj [])
      | _ \<Rightarrow> Inl (Error ''not an HTTP request''))"

definition demo_s3uri :: "jsval \<Rightarrow> js_error + jsval \<times> jsval" where
  "demo_s3uri u =
     (if u = JStr ''https://s3.amazonaws.com/uploads/abc123.zip''
      then Inr (JStr ''uploads'', JStr ''abc123.zip'')
      else Inl (Error ''Invalid S3 URI''))"

definition create_text :: string where
  \<open>create_text = ''{"topic":"submission.notification.create","payload":{"id":"abc123","resource":"submission","fileType":"zip","url":"http://host/file.zip"}}''\<close>

definition create_json :: jsval where
  "create_json =
     JObj [(''topic'', JStr ''submission.notification.create''),
           (''payload'', JObj [(''id'', JStr ''abc123''), (''resource'', JStr ''submission''),
                              (''fileType'', JStr ''zip''), (''url'', JStr ''http://host/file.zip'')])]"

definition scan_text :: string where
  \<open>scan_text = ''{"topic":"avscan.action.scan","payload":{"submissionId":"abc123","fileName":"abc123.zip","status":"scanned","isInfected":true}}''\<close>

definition scan_json :: jsval where
  "scan_json =
     JObj [(''topic'', JStr ''avscan.action.scan''),
           (''payload'', JObj [(''submissionId'', JStr ''abc123''), (''fileName'', JStr ''abc123.zip''),
                              (''status'', JStr ''scanned''), (''isInfected'', JBool True)])]"

definition clean_scan_json :: jsval where
  "clean_scan_json =
     JObj [(''topic'', JStr ''avscan.action.scan''),
           (''payload'', JObj [(''submissionId'', JStr ''abc123''), (''fileName'', JStr ''abc123.zip''),
                              (''status'', JStr ''scanned''), (''isInfected'', JBool False)])]"

definition bare_text :: string where
  \<open>bare_text = ''{"topic":"avscan.action.scan"}''\<close>

definition bare_json :: jsval where
  "bare_json = JObj [(''topic'', JStr ''avscan.action.scan'')]"

definition demo_parse :: "string \<Rightarrow> js_error + jsval" where
  "demo_parse s =
     (case map_of [(create_text, create_json), (scan_text, scan_json), (bare_text, bare_json)] s of
        None \<Rightarrow> Inl (SyntaxError ''Unexpected token'')
      | Some v \<Rightarrow> Inr v)"

definition demo_env :: env where
  "demo_env =
     \<lparr> SUBMISSION_CREATE_TOPIC = ''submission.notification.create'',
       AVSCAN_TOPIC = ''avscan.action.scan'',
       DMZ_BUCKET = ''dmz'',
       CLEAN_BUCKET = ''clean'',
       QUARANTINE_BUCKET = ''quarantine'',
       SUBMISSION_API_URL = ''https://api/v5'',
       ANTIVIRUS_API_URL = ''https://av/scan'',
       MAXFILESIZE = JNum 1000,
       JSON_parse = demo_parse,
       JSON_stringify = ToString,
       AmazonS3URI = demo_s3uri,
       s3_fault = (\<lambda>h e. None),
       http = demo_http,
       getMachineToken = (\<lambda>h. Inr ''token''),
       uuid = (\<lambda>h. ''reviewer-1'') \<rparr>"

text \<open>The Submission API answers every request with an empty result set.\<close>

definition empty_env :: env where
  "empty_env = demo_env \<lparr> http := (\<lambda>h e. Inr (JArr [])) \<rparr>"

text \<open>The storage service fails the second call it receives, and no other.\<close>

definition flaky_env :: env where
  "flaky_env =
     demo_env \<lparr> s3_fault := (\<lambda>h e. if length h = 1 then Some (ServiceError (Some 500) ''InternalError'') else None) \<rparr>"

text \<open>A create message whose file is an object of the storage service.\<close>

definition native_create_json :: jsval where
  "native_create_json =
     JObj [(''topic'', JStr ''submission.notification.create''),
           (''payload'', JObj [(''id'', JStr ''abc123''), (''resource'', JStr ''submission''),
                              (''fileType'', JStr ''zip''),
                              (''url'', JStr ''https://s3.amazonaws.com/uploads/abc123.zip'')])]"

text \<open>
  A world with one staged object and an empty cache, the same with the review type cached, one
  with the file still in the bucket it was uploaded to, and one with nothing stored.
\<close>

definition staged_world :: world where
  "staged_world =
     \<lparr> s3 = [(''dmz'', ''abc123.zip'') \<mapsto> ''PK-file-bytes''], reviewTypes = Map.empty, trace = [], logs = [] \<rparr>"

definition warm_world :: world where
  "warm_world =
     \<lparr> s3 = [(''dmz'', ''abc123.zip'') \<mapsto> ''PK-file-bytes''],
       reviewTypes = [''Virus Scan'' \<mapsto> JStr ''rt-virus-scan''], trace = [], logs = [] \<rparr>"

definition uploaded_world :: world where
  "uploaded_world =
     \<lparr> s3 = [(''uploads'', ''abc123.zip'') \<mapsto> ''PK-file-bytes''], reviewTypes = Map.empty,
       trace = [], logs = [] \<rparr>"

definition fresh_world :: world where
  "fresh_world = \<lparr> s3 = Map.empty, reviewTypes = Map.empty, trace = [], logs = [] \<rparr>"

section \<open>Evaluation rules\<close>

lemma bind_apply:
  "bind m f w = (case m w of (Inl e, w') \<Rightarrow> (Inl e, w') | (Inr x, w') \<Rightarrow> f x w')"
  by (simp add: bind_def)

lemma catch_apply:
  "catch m h w = (case m w of (Inl e, w') \<Rightarrow> h e w' | (Inr x, w') \<Rightarrow> (Inr x, w'))"
  by (simp add: catch_def)

lemma ret_apply: "ret x w = (Inr x, w)"
  by (simp add: ret_def)

lemma throw_apply: "throw e w = (Inl e, w)"
  by (simp add: throw_def)

lemma lift_apply: "lift r w = (r, w)"
  by (simp add: lift_def)

lemma emit_apply: "emit e w = (Inr (), w\<lparr>trace := trace w @ [e]\<rparr>)"
  by (simp add: emit_def)

lemma logger_apply: "logger lvl a w = (Inr (), w\<lparr>logs := logs w @ [(lvl, a)]\<rparr>)"
  by (simp add: logger_def)

lemmas io_simps = bind_apply catch_apply ret_apply throw_apply lift_apply emit_apply logger_apply

lemma s3_param_JStr: "s3_param (JStr s) = Inr s"
  by (simp add: s3_param_def)

section \<open>moveFile\<close>

lemma parse_copy_source_path:
  assumes "CHR ''/'' \<notin> set b"
  shows "parse_copy_source (''/'' @ b @ ''/'' @ k) = (b, k)"
proof -
  have "takeWhile (\<lambda>c. c \<noteq> CHR ''/'') (b @ CHR ''/'' # k) = b"
    using assms by (induction b) auto
  moreover have "dropWhile (\<lambda>c. c \<noteq> CHR ''/'') (b @ CHR ''/'' # k) = CHR ''/'' # k"
    using assms by (induction b) auto
  ultimately show ?thesis
    by (simp add: parse_copy_source_def)
qed

text \<open>The two requests of a move.\<close>

lemma moveFile_eval:
  assumes "CHR ''/'' \<notin> set sb"
  shows "moveFile env sb (JStr sk) tb (JStr tk) w =
    (let copy = S3CopyObject tb (''/'' @ sb @ ''/'' @ sk) tk;
         del = S3DeleteObject sb sk
     in case s3_fault env (trace w) copy of
          Some err \<Rightarrow> (Inl err, w\<lparr>trace := trace w @ [copy]\<rparr>)
        | None \<Rightarrow>
           (case s3 w (sb, sk) of
              None \<Rightarrow> (Inl (ServiceError (Some 404) ''NoSuchKey''), w\<lparr>trace := trace w @ [copy]\<rparr>)
            | Some v \<Rightarrow>
               (case s3_fault env (trace w @ [copy]) del of
                  Some err \<Rightarrow> (Inl err, w\<lparr>trace := trace w @ [copy, del], s3 := (s3 w)((tb, tk) \<mapsto> v)\<rparr>)
                | None \<Rightarrow> (Inr (), w\<lparr>trace := trace w @ [copy, del],
                                     s3 := (s3 w)((tb, tk) \<mapsto> v, (sb, sk) := None)\<rparr>))))"
  using parse_copy_source_path[OF assms, of sk]
  by (simp add: moveFile_def copyObjectAsync_def deleteObjectAsync_def io_simps s3_param_JStr
      s3_call_def s3_read_def s3_write_def Let_def split: option.splits)

text \<open>
  C9. For string keys, a source bucket name without a slash and a source object that is
  present: when the storage service fails neither request, a move succeeds after exactly two
  requests, the copy of the object to the destination and then the delete of the source, in
  that order, and the object is then at the destination and no longer at the source. When the
  copy succeeds and the delete fails, the move fails and leaves the object copied but not
  deleted. A complete copy-then-delete run that meets no storage fault, started in either
  intermediate state (nothing done, or copied but not deleted), succeeds and ends in the same
  storage state as a single successful run. Moreover every run that succeeds has made exactly
  these two requests, every run that fails leaves one of the two intermediate states, and a
  run started in the final state leaves it as it is (its copy finds no source and fails).
\<close>

theorem moveFile_copy_then_delete_retry:
  fixes env :: env and sourceBucket sourceKey targetBucket targetKey :: string and w :: world
  assumes slash: "CHR ''/'' \<notin> set sourceBucket"
    and obj: "s3 w (sourceBucket, sourceKey) = Some v"
  defines "mv \<equiv> moveFile env sourceBucket (JStr sourceKey) targetBucket (JStr targetKey)"
    and "copy \<equiv> S3CopyObject targetBucket (''/'' @ sourceBucket @ ''/'' @ sourceKey) targetKey"
    and "del \<equiv> S3DeleteObject sourceBucket sourceKey"
    and "copied \<equiv> (s3 w)((targetBucket, targetKey) \<mapsto> v)"
    and "final \<equiv> (s3 w)((targetBucket, targetKey) \<mapsto> v, (sourceBucket, sourceKey) := None)"
  shows "(s3_fault env (trace w) copy = None \<and> s3_fault env (trace w @ [copy]) del = None \<longrightarrow>
            mv w = (Inr (), w\<lparr>trace := trace w @ [copy, del], s3 := final\<rparr>))
       \<and> (s3_fault env (trace w) copy = None \<and> s3_fault env (trace w @ [copy]) del = Some fault \<longrightarrow>
            mv w = (Inl fault, w\<lparr>trace := trace w @ [copy, del], s3 := copied\<rparr>))
       \<and> ((s3 wi = s3 w \<or> s3 wi = copied)
            \<and> s3_fault env (trace wi) copy = None \<and> s3_fault env (trace wi @ [copy]) del = None \<longrightarrow>
            mv wi = (Inr (), wi\<lparr>trace := trace wi @ [copy, del], s3 := final\<rparr>))
       \<and> (mv w = (Inr u, w') \<longrightarrow> trace w' = trace w @ [copy, del] \<and> s3 w' = final)
       \<and> (mv w = (Inl e, w1) \<longrightarrow> s3 w1 = s3 w \<or> s3 w1 = copied)
       \<and> ((s3 wi = s3 w \<or> s3 wi = copied) \<and> mv wi = (Inr u2, w2) \<longrightarrow> s3 w2 = final)
       \<and> (s3 wd = final \<and> mv wd = (r3, w3) \<longrightarrow> s3 w3 = final \<and> (\<exists>err. r3 = Inl err))"
proof -
  have single: "mv w = (Inr (), w\<lparr>trace := trace w @ [copy, del], s3 := final\<rparr>)"
    if "s3_fault env (trace w) copy = None \<and> s3_fault env (trace w @ [copy]) del = None"
    using that obj unfolding mv_def copy_def del_def final_def moveFile_eval[OF slash]
    by (simp add: Let_def)
  have half: "mv w = (Inl fault, w\<lparr>trace := trace w @ [copy, del], s3 := copied\<rparr>)"
    if "s3_fault env (trace w) copy = None \<and> s3_fault env (trace w @ [copy]) del = Some fault"
    using that obj unfolding mv_def copy_def del_def copied_def moveFile_eval[OF slash]
    by (simp add: Let_def)
  have rerun: "mv wi = (Inr (), wi\<lparr>trace := trace wi @ [copy, del], s3 := final\<rparr>)"
    if a: "(s3 wi = s3 w \<or> s3 wi = copied)
            \<and> s3_fault env (trace wi) copy = None \<and> s3_fault env (trace wi @ [copy]) del = None"
  proof -
    from a have src: "s3 wi (sourceBucket, sourceKey) = Some v"
      using obj by (auto simp: copied_def)
    have "(s3 wi)((targetBucket, targetKey) \<mapsto> v, (sourceBucket, sourceKey) := None) = final"
      using a by (auto simp: final_def copied_def)
    with a src show ?thesis
      unfolding mv_def copy_def del_def moveFile_eval[OF slash]
      by (simp add: Let_def)
  qed
  have run: "trace w' = trace w @ [copy, del] \<and> s3 w' = final"
    if "mv w = (Inr u, w')"
    using that obj unfolding mv_def copy_def del_def final_def moveFile_eval[OF slash]
    by (auto simp: Let_def split: option.splits)
  have partial: "s3 w1 = s3 w \<or> s3 w1 = copied" if "mv w = (Inl e, w1)"
    using that obj unfolding mv_def copied_def moveFile_eval[OF slash]
    by (auto simp: Let_def split: option.splits)
  have again: "s3 w2 = final" if a: "(s3 wi = s3 w \<or> s3 wi = copied) \<and> mv wi = (Inr u2, w2)"
  proof -
    from a have src: "s3 wi (sourceBucket, sourceKey) = Some v"
      using obj by (auto simp: copied_def)
    have "s3 w2 = (s3 wi)((targetBucket, targetKey) \<mapsto> v, (sourceBucket, sourceKey) := None)"
      using a src unfolding mv_def moveFile_eval[OF slash]
      by (auto simp: Let_def split: option.splits)
    with a show ?thesis
      by (auto simp: final_def copied_def)
  qed
  have after: "s3 w3 = final \<and> (\<exists>err. r3 = Inl err)" if a: "s3 wd = final \<and> mv wd = (r3, w3)"
  proof -
    from a have "s3 wd (sourceBucket, sourceKey) = None"
      by (simp add: final_def)
    with a show ?thesis
      unfolding mv_def moveFile_eval[OF slash]
      by (auto simp: Let_def split: option.splits)
  qed
  from single half rerun run partial again after show ?thesis
    by blast
qed

theorem moveFile_copy_then_delete_retry_witness:
  "CHR ''/'' \<notin> set ''dmz''
   \<and> s3 staged_world (''dmz'', ''abc123.zip'') = Some ''PK-file-bytes''
   \<and> moveFile demo_env ''dmz'' (JStr ''abc123.zip'') ''clean'' (JStr ''abc123.zip'') staged_world
       = (Inr (), staged_world
            \<lparr>trace := [S3CopyObject ''clean'' ''/dmz/abc123.zip'' ''abc123.zip'',
                       S3DeleteObject ''dmz'' ''abc123.zip''],
             s3 := (s3 staged_world)((''clean'', ''abc123.zip'') \<mapsto> ''PK-file-bytes'',
                                     (''dmz'', ''abc123.zip'') := None)\<rparr>)
   \<and> moveFile flaky_env ''dmz'' (JStr ''abc123.zip'') ''clean'' (JStr ''abc123.zip'') staged_world
       = (Inl (ServiceError (Some 500) ''InternalError''), staged_world
            \<lparr>trace := [S3CopyObject ''clean'' ''/dmz/abc123.zip'' ''abc123.zip'',
                       S3DeleteObject ''dmz'' ''abc123.zip''],
             s3 := (s3 staged_world)((''clean'', ''abc123.zip'') \<mapsto> ''PK-file-bytes'')\<rparr>)
   \<and> moveFile flaky_env ''dmz'' (JStr ''abc123.zip'') ''clean'' (JStr ''abc123.zip'')
        (staged_world
            \<lparr>trace := [S3CopyObject ''clean'' ''/dmz/abc123.zip'' ''abc123.zip'',
                       S3DeleteObject ''dmz'' ''abc123.zip''],
             s3 := (s3 staged_world)((''clean'', ''abc123.zip'') \<mapsto> ''PK-file-bytes'')\<rparr>)
       = (Inr (), staged_world
            \<lparr>trace := [S3CopyObject ''clean'' ''/dmz/abc123.zip'' ''abc123.zip'',
                       S3DeleteObject ''dmz'' ''abc123.zip'',
                       S3CopyObject ''clean'' ''/dmz/abc123.zip'' ''abc123.zip'',
                       S3DeleteObject ''dmz'' ''abc123.zip''],
             s3 := (s3 staged_world)((''clean'', ''abc123.zip'') \<mapsto> ''PK-file-bytes'',
                                     (''dmz'', ''abc123.zip'') := None)\<rparr>)
   \<and> fst (moveFile demo_env ''dmz'' (JStr ''abc123.zip'') ''clean'' (JStr ''abc123.zip'')
        (snd (moveFile demo_env ''dmz'' (JStr ''abc123.zip'') ''clean'' (JStr ''abc123.zip'') staged_world)))
       = Inl (ServiceError (Some 404) ''NoSuchKey'')
   \<and> s3 (snd (moveFile demo_env ''dmz'' (JStr ''abc123.zip'') ''clean'' (JStr ''abc123.zip'')
        (snd (moveFile demo_env ''dmz'' (JStr ''abc123.zip'') ''clean'' (JStr ''abc123.zip'') staged_world))))
       = (s3 staged_world)((''clean'', ''abc123.zip'') \<mapsto> ''PK-file-bytes'', (''dmz'', ''abc123.zip'') := None)"
proof -
  let ?mv = "moveFile flaky_env ''dmz'' (JStr ''abc123.zip'') ''clean'' (JStr ''abc123.zip'')"
  let ?ok = "moveFile demo_env ''dmz'' (JStr ''abc123.zip'') ''clean'' (JStr ''abc123.zip'')"
  let ?copy = "S3CopyObject ''clean'' ''/dmz/abc123.zip'' ''abc123.zip''"
  let ?del = "S3DeleteObject ''dmz'' ''abc123.zip''"
  let ?copied = "(s3 staged_world)((''clean'', ''abc123.zip'') \<mapsto> ''PK-file-bytes'')"
  let ?final = "(s3 staged_world)((''clean'', ''abc123.zip'') \<mapsto> ''PK-file-bytes'',
                                  (''dmz'', ''abc123.zip'') := None)"
  let ?mid = "staged_world\<lparr>trace := [?copy, ?del], s3 := ?copied\<rparr>"
  have slash: "CHR ''/'' \<notin> set ''dmz''"
    by simp
  have obj: "s3 staged_world (''dmz'', ''abc123.zip'') = Some ''PK-file-bytes''"
    by (simp add: staged_world_def)
  have t0: "trace staged_world = []"
    by (simp add: staged_world_def)
  note retry = moveFile_copy_then_delete_retry[OF slash obj, where targetBucket = "''clean''"
      and targetKey = "''abc123.zip''"]
  have single: "?ok staged_world = (Inr (), staged_world\<lparr>trace := [?copy, ?del], s3 := ?final\<rparr>)"
    using retry[where env = demo_env, THEN conjunct1]
    by (simp add: demo_env_def t0)
  have first: "?mv staged_world = (Inl (ServiceError (Some 500) ''InternalError''), ?mid)"
    using retry[where env = flaky_env and fault = "ServiceError (Some 500) ''InternalError''",
        THEN conjunct2, THEN conjunct1]
    by (simp add: flaky_env_def demo_env_def t0)
  have second: "?mv ?mid = (Inr (), staged_world\<lparr>trace := [?copy, ?del, ?copy, ?del], s3 := ?final\<rparr>)"
    using retry[where env = flaky_env and wi = ?mid, THEN conjunct2, THEN conjunct2, THEN conjunct1]
    by (simp add: flaky_env_def demo_env_def)
  have after: "s3 w3 = ?final" if "s3 wd = ?final" "?ok wd = (r3, w3)" for wd r3 w3
    using retry[where env = demo_env and wd = wd and ?r3.0 = r3 and ?w3.0 = w3,
        THEN conjunct2, THEN conjunct2, THEN conjunct2, THEN conjunct2, THEN conjunct2, THEN conjunct2] that
    by blast
  have "s3 (snd (?ok staged_world)) = ?final"
    by (simp add: single)
  then have finished: "s3 (snd (?ok (snd (?ok staged_world)))) = ?final"
    by (rule after) (rule prod.collapse[symmetric])
  have gone: "fst (?ok (snd (?ok staged_world))) = Inl (ServiceError (Some 404) ''NoSuchKey'')"
    by (simp add: single moveFile_eval[OF slash] demo_env_def staged_world_def)
  show ?thesis
    using slash obj single first second finished gone
    by (intro conjI)
qed

section \<open>Requests to the Submission API\<close>

lemma getM2Mtoken_apply:
  "getM2Mtoken env w = (getMachineToken env (trace w), w\<lparr>trace := trace w @ [M2MToken]\<rparr>)"
  by (simp add: getM2Mtoken_def)

lemma http_call_apply:
  "http_call env e w =
     (case http env (trace w) e of Inl err \<Rightarrow> Inl err | Inr d \<Rightarrow> Inr (JObj [(''data'', d)]),
      w\<lparr>trace := trace w @ [e]\<rparr>)"
  by (simp add: http_call_def split: sum.splits)

lemma reqToSubmissionAPI_eval:
  assumes "reqType = ''POST'' \<or> reqType = ''PATCH'' \<or> reqType = ''GET''"
  shows "reqToSubmissionAPI env reqType path reqBody w =
    (case getMachineToken env (trace w) of
       Inl e \<Rightarrow> (Inl e, w\<lparr>trace := trace w @ [M2MToken]\<rparr>)
     | Inr token \<Rightarrow>
        (let req = HttpReq reqType (JStr path) (if reqType = ''GET'' then JUndefined else reqBody) (Bearer token)
         in (case http env (trace w @ [M2MToken]) req of
               Inl e \<Rightarrow> Inl e
             | Inr d \<Rightarrow> Inr (if reqType = ''GET'' then JObj [(''data'', d)] else JUndefined),
             w\<lparr>trace := trace w @ [M2MToken, req]\<rparr>)))"
  using assms
  by (auto simp: reqToSubmissionAPI_def io_simps getM2Mtoken_apply http_call_apply Let_def
      split: sum.splits)

section \<open>getreviewTypeId\<close>

lemma getreviewTypeId_hit:
  "truthy (cached w name) \<Longrightarrow> getreviewTypeId env name w = (Inr (cached w name), w)"
  by (simp add: getreviewTypeId_def)

lemma getreviewTypeId_miss:
  assumes "\<not> truthy (cached w name)"
  shows "getreviewTypeId env name w =
    (case getMachineToken env (trace w) of
       Inl e \<Rightarrow> (Inl e, w\<lparr>trace := trace w @ [M2MToken]\<rparr>)
     | Inr token \<Rightarrow>
        (let req = HttpReq ''GET'' (JStr (SUBMISSION_API_URL env @ ''/reviewTypes?name='' @ name))
                     JUndefined (Bearer token);
             w2 = w\<lparr>trace := trace w @ [M2MToken, req]\<rparr>
         in case http env (trace w @ [M2MToken]) req of
              Inl e \<Rightarrow> (Inl e, w2)
            | Inr data \<Rightarrow>
               (case js_get data ''length'' of
                  Inl e \<Rightarrow> (Inl e, w2)
                | Inr len \<Rightarrow>
                   if len \<noteq> JNum 0 then
                     (case js_first data of
                        Inl e \<Rightarrow> (Inl e, w2)
                      | Inr first \<Rightarrow>
                         (case js_get first ''id'' of
                            Inl e \<Rightarrow> (Inl e, w2)
                          | Inr i \<Rightarrow> (Inr i, w2\<lparr>reviewTypes := (reviewTypes w)(name \<mapsto> i)\<rparr>)))
                   else (Inr JNull, w2))))"
  using assms
  by (simp add: getreviewTypeId_def io_simps reqToSubmissionAPI_eval js_get_def cache_put_def
      cached_def Let_def split: sum.splits)

lemma js_get_length_JArr: "js_get (JArr xs) ''length'' = Inr (JNum (int (length xs)))"
  by (simp add: js_get_def)

text \<open>
  C6. The lookup reads the cache first: a cached (truthy) id is returned without any request
  and without any change. On a miss it acquires a token and sends one GET for the name; an
  empty result set yields \<open>null\<close> and leaves the cache as it was, a non-empty one
  stores the id of the first result under the name and returns it.
\<close>

theorem getreviewTypeId_cache_then_lookup:
  fixes env :: env and name :: string and w :: world
  defines "lookup \<equiv> \<lambda>tok. HttpReq ''GET'' (JStr (SUBMISSION_API_URL env @ ''/reviewTypes?name='' @ name))
                      JUndefined (Bearer tok)"
  shows "(truthy (cached w name) \<longrightarrow> getreviewTypeId env name w = (Inr (cached w name), w))
       \<and> (\<not> truthy (cached w name) \<and> getMachineToken env (trace w) = Inr tok
            \<and> http env (trace w @ [M2MToken]) (lookup tok) = Inr (JArr []) \<longrightarrow>
          getreviewTypeId env name w = (Inr JNull, w\<lparr>trace := trace w @ [M2MToken, lookup tok]\<rparr>))
       \<and> (\<not> truthy (cached w name) \<and> getMachineToken env (trace w) = Inr tok
            \<and> http env (trace w @ [M2MToken]) (lookup tok) = Inr (JArr (first # others))
            \<and> js_get first ''id'' = Inr i \<longrightarrow>
          getreviewTypeId env name w =
            (Inr i, w\<lparr>trace := trace w @ [M2MToken, lookup tok],
                      reviewTypes := (reviewTypes w)(name \<mapsto> i)\<rparr>))"
  unfolding lookup_def
  by (auto simp: getreviewTypeId_hit getreviewTypeId_miss js_get_length_JArr js_first_def Let_def)

theorem getreviewTypeId_cache_then_lookup_witness:
  "truthy (cached (fresh_world\<lparr>reviewTypes := [AV_SCAN \<mapsto> JStr ''rt-virus-scan'']\<rparr>) AV_SCAN)
   \<and> getreviewTypeId demo_env AV_SCAN (fresh_world\<lparr>reviewTypes := [AV_SCAN \<mapsto> JStr ''rt-virus-scan'']\<rparr>)
       = (Inr (JStr ''rt-virus-scan''), fresh_world\<lparr>reviewTypes := [AV_SCAN \<mapsto> JStr ''rt-virus-scan'']\<rparr>)
   \<and> \<not> truthy (cached fresh_world AV_SCAN)
   \<and> getreviewTypeId empty_env AV_SCAN fresh_world
       = (Inr JNull,
          fresh_world\<lparr>trace := [M2MToken,
            HttpReq ''GET'' (JStr ''https://api/v5/reviewTypes?name=Virus Scan'') JUndefined (Bearer ''token'')]\<rparr>)
   \<and> getreviewTypeId demo_env AV_SCAN fresh_world
       = (Inr (JStr ''rt-virus-scan''),
          fresh_world\<lparr>trace := [M2MToken,
            HttpReq ''GET'' (JStr ''https://api/v5/reviewTypes?name=Virus Scan'') JUndefined (Bearer ''token'')],
            reviewTypes := [AV_SCAN \<mapsto> JStr ''rt-virus-scan'']\<rparr>)"
proof -
  let ?hit = "fresh_world\<lparr>reviewTypes := [AV_SCAN \<mapsto> JStr ''rt-virus-scan'']\<rparr>"
  have h1: "truthy (cached ?hit AV_SCAN)"
    by (simp add: cached_def fresh_world_def)
  have h2: "\<not> truthy (cached fresh_world AV_SCAN)"
    by (simp add: cached_def fresh_world_def)
  have c1: "getreviewTypeId demo_env AV_SCAN ?hit = (Inr (JStr ''rt-virus-scan''), ?hit)"
    using getreviewTypeId_cache_then_lookup[of ?hit AV_SCAN demo_env] h1
    by (simp add: cached_def fresh_world_def)
  have c2: "getreviewTypeId empty_env AV_SCAN fresh_world
       = (Inr JNull,
          fresh_world\<lparr>trace := [M2MToken,
            HttpReq ''GET'' (JStr ''https://api/v5/reviewTypes?name=Virus Scan'') JUndefined (Bearer ''token'')]\<rparr>)"
    using getreviewTypeId_cache_then_lookup[of fresh_world AV_SCAN empty_env "''token''"] h2
    by (simp add: empty_env_def demo_env_def fresh_world_def AV_SCAN_def)
  have c3: "getreviewTypeId demo_env AV_SCAN fresh_world
       = (Inr (JStr ''rt-virus-scan''),
          fresh_world\<lparr>trace := [M2MToken,
            HttpReq ''GET'' (JStr ''https://api/v5/reviewTypes?name=Virus Scan'') JUndefined (Bearer ''token'')],
            reviewTypes := [AV_SCAN \<mapsto> JStr ''rt-virus-scan'']\<rparr>)"
    using getreviewTypeId_cache_then_lookup[of fresh_world AV_SCAN demo_env "''token''"
        "JObj [(''id'', JStr ''rt-virus-scan''), (''name'', JStr ''Virus Scan'')]" "[]" "JStr ''rt-virus-scan''"] h2
    by (simp add: demo_env_def demo_http_def fresh_world_def AV_SCAN_def js_get_def)
  from h1 h2 c1 c2 c3 show ?thesis
    by blast
qed

text \<open>
  C7, as stated, fails: when the Submission API answers an empty result set nothing is
  cached, and the second of two successive lookups sends its own request.
\<close>

theorem getreviewTypeId_twice_counterexample:
  "length (network_calls (trace (snd (getreviewTypeId empty_env AV_SCAN
      (snd (getreviewTypeId empty_env AV_SCAN fresh_world)))))) = 2
   \<and> length (network_calls (trace (snd (getreviewTypeId empty_env AV_SCAN
      (snd (getreviewTypeId empty_env AV_SCAN fresh_world)))))) \<noteq> 1"
  by (simp add: getreviewTypeId_miss cached_def fresh_world_def empty_env_def demo_env_def
      js_get_def network_calls_def Let_def)

text \<open>
  C7, amended. Starting from a cache without a (truthy) entry for the name, if the first
  lookup finds a review type (it returns a truthy id), then a second lookup of the same name
  is served from the cache, sends nothing and returns the same id: the two calls together
  issue exactly one network request, the GET of the first call.
\<close>

theorem getreviewTypeId_second_call_cached:
  assumes miss: "\<not> truthy (cached w name)"
    and first: "getreviewTypeId env name w = (Inr v, w1)"
    and found: "truthy v"
  shows "getreviewTypeId env name w1 = (Inr v, w1)
       \<and> (\<exists>tok. drop (length (trace w)) (trace w1) =
             [M2MToken, HttpReq ''GET'' (JStr (SUBMISSION_API_URL env @ ''/reviewTypes?name='' @ name))
                          JUndefined (Bearer tok)])
       \<and> length (network_calls (drop (length (trace w)) (trace w1))) = 1"
proof -
  from first miss found obtain tok where
    w1: "w1 = w\<lparr>trace := trace w @ [M2MToken,
            HttpReq ''GET'' (JStr (SUBMISSION_API_URL env @ ''/reviewTypes?name='' @ name)) JUndefined (Bearer tok)],
          reviewTypes := (reviewTypes w)(name \<mapsto> v)\<rparr>"
    by (auto simp: getreviewTypeId_miss Let_def split: sum.splits if_splits)
  then have "cached w1 name = v"
    by (simp add: cached_def)
  with found have "getreviewTypeId env name w1 = (Inr v, w1)"
    using getreviewTypeId_hit[of w1 name env] by simp
  with w1 show ?thesis
    by (simp add: network_calls_def)
qed

theorem getreviewTypeId_second_call_cached_witness:
  "\<not> truthy (cached fresh_world AV_SCAN)
   \<and> truthy (JStr ''rt-virus-scan'')
   \<and> fst (getreviewTypeId demo_env AV_SCAN fresh_world) = Inr (JStr ''rt-virus-scan'')
   \<and> getreviewTypeId demo_env AV_SCAN (snd (getreviewTypeId demo_env AV_SCAN fresh_world))
       = (Inr (JStr ''rt-virus-scan''), snd (getreviewTypeId demo_env AV_SCAN fresh_world))
   \<and> length (network_calls (trace (snd (getreviewTypeId demo_env AV_SCAN fresh_world)))) = 1"
proof -
  have miss: "\<not> truthy (cached fresh_world AV_SCAN)"
    by (simp add: cached_def fresh_world_def)
  have fst1: "fst (getreviewTypeId demo_env AV_SCAN fresh_world) = Inr (JStr ''rt-virus-scan'')"
    by (simp add: getreviewTypeId_miss[OF miss] demo_env_def demo_http_def js_get_def
        js_first_def Let_def)
  then have first: "getreviewTypeId demo_env AV_SCAN fresh_world
      = (Inr (JStr ''rt-virus-scan''), snd (getreviewTypeId demo_env AV_SCAN fresh_world))"
    by (metis prod.collapse)
  have found: "truthy (JStr ''rt-virus-scan'')"
    by simp
  have "trace fresh_world = []"
    by (simp add: fresh_world_def)
  with getreviewTypeId_second_call_cached[OF miss first found] miss found fst1 show ?thesis
    by simp
qed

section \<open>downloadFile\<close>

lemma s3_call_apply:
  "s3_call env e w =
     (case s3_fault env (trace w) e of Some err \<Rightarrow> Inl err | None \<Rightarrow> Inr (),
      w\<lparr>trace := trace w @ [e]\<rparr>)"
  by (simp add: s3_call_def split: option.splits)

lemma getObjectAsync_trace:
  "trace (snd (getObjectAsync env Bucket Key w)) =
     trace w @ (case (s3_param Bucket, s3_param Key) of (Inr b, Inr k) \<Rightarrow> [S3GetObject b k] | _ \<Rightarrow> [])"
  by (simp add: getObjectAsync_def io_simps s3_call_apply s3_read_def
      split: sum.splits option.splits)

lemma bind_ret_right: "bind m (\<lambda>x. ret x) = m"
  by (rule ext) (simp add: bind_def ret_def split: prod.splits sum.splits)

lemma downloadFile_s3_eval:
  assumes "matches_amazonaws fileURL"
  shows "downloadFile env fileURL w =
     (case AmazonS3URI env fileURL of
        Inl e \<Rightarrow> (Inl e, w)
      | Inr (bucket, key) \<Rightarrow>
          getObjectAsync env bucket key
            (w\<lparr>logs := logs w @ [(LInfo, Msg (''downloadFile(): file is on S3 '' @ ToString bucket
                                   @ '' / '' @ ToString key))]\<rparr>))"
  using assms
  by (simp add: downloadFile_def bind_ret_right io_simps split: sum.splits prod.splits)

lemma downloadFile_s3_trace:
  assumes "matches_amazonaws fileURL"
  shows "trace (snd (downloadFile env fileURL w)) =
     trace w @ (case AmazonS3URI env fileURL of
                  Inl e \<Rightarrow> []
                | Inr (bucket, key) \<Rightarrow>
                    (case (s3_param bucket, s3_param key) of (Inr b, Inr k) \<Rightarrow> [S3GetObject b k] | _ \<Rightarrow> []))"
proof (cases "AmazonS3URI env fileURL")
  case (Inl e)
  then show ?thesis
    by (simp add: downloadFile_s3_eval[OF assms])
next
  case (Inr p)
  obtain bucket key where p: "p = (bucket, key)"
    by (cases p)
  show ?thesis
    unfolding downloadFile_s3_eval[OF assms] Inr p
    by (simp add: getObjectAsync_trace)
qed

lemma downloadFile_generic_trace:
  assumes "\<not> matches_amazonaws fileURL"
  shows "trace (snd (downloadFile env fileURL w)) =
     trace w @ [HttpReq ''GET'' fileURL JUndefined Arraybuffer]"
  using assms
  by (simp add: downloadFile_def io_simps http_call_apply split: sum.splits prod.splits)

text \<open>
  C8. The download strategy is chosen by the test \<open>/.*amazonaws.*/\<close> on the whole text of
  the URL, not on its host. The public URL \<open>https://example.com/amazonaws.zip\<close> does not
  point at the storage service's domain, yet it passes the test: in every environment and
  every world the code hands it to the S3 URI parser and sends no network request at all, so
  the generic fetch never happens. Where the parser rejects the URL the download fails, although
  the generic fetch would have answered the file. In the other direction the storage URL
  \<open>https://S3.AMAZONAWS.COM/uploads/abc123.zip\<close>, whose host is written in upper case,
  fails the test and is fetched by a generic GET, never through the storage API.
\<close>

theorem downloadFile_public_url_never_fetched:
  "matches_amazonaws (JStr ''https://example.com/amazonaws.zip'')
   \<and> (\<exists>evs. trace (snd (downloadFile env (JStr ''https://example.com/amazonaws.zip'') w)) = trace w @ evs
            \<and> network_calls evs = [])
   \<and> http demo_env (trace fresh_world)
        (HttpReq ''GET'' (JStr ''https://example.com/amazonaws.zip'') JUndefined Arraybuffer)
       = Inr (JStr ''PK-file-bytes'')
   \<and> downloadFile demo_env (JStr ''https://example.com/amazonaws.zip'') fresh_world
       = (Inl (Error ''Invalid S3 URI''), fresh_world)
   \<and> \<not> matches_amazonaws (JStr ''https://S3.AMAZONAWS.COM/uploads/abc123.zip'')
   \<and> trace (snd (downloadFile env (JStr ''https://S3.AMAZONAWS.COM/uploads/abc123.zip'') w))
       = trace w @ [HttpReq ''GET'' (JStr ''https://S3.AMAZONAWS.COM/uploads/abc123.zip'')
                      JUndefined Arraybuffer]"
proof -
  let ?odd = "JStr ''https://example.com/amazonaws.zip''"
  let ?upper = "JStr ''https://S3.AMAZONAWS.COM/uploads/abc123.zip''"
  have odd: "matches_amazonaws ?odd"
    by (simp add: matches_amazonaws_def)
  have calls: "network_calls
      (case AmazonS3URI env ?odd of
         Inl e \<Rightarrow> []
       | Inr (bucket, key) \<Rightarrow>
           (case (s3_param bucket, s3_param key) of (Inr b, Inr k) \<Rightarrow> [S3GetObject b k] | _ \<Rightarrow> [])) = []"
    by (simp add: network_calls_def split: sum.splits prod.splits)
  have none: "\<exists>evs. trace (snd (downloadFile env ?odd w)) = trace w @ evs \<and> network_calls evs = []"
    using downloadFile_s3_trace[OF odd, of env w] calls by blast
  have answer: "http demo_env (trace fresh_world) (HttpReq ''GET'' ?odd JUndefined Arraybuffer)
      = Inr (JStr ''PK-file-bytes'')"
    by (simp add: demo_env_def demo_http_def)
  have fails: "downloadFile demo_env ?odd fresh_world = (Inl (Error ''Invalid S3 URI''), fresh_world)"
    by (simp add: downloadFile_s3_eval[OF odd] demo_env_def demo_s3uri_def)
  have upper: "\<not> matches_amazonaws ?upper"
    by (simp add: matches_amazonaws_def)
  have generic: "trace (snd (downloadFile env ?upper w))
      = trace w @ [HttpReq ''GET'' ?upper JUndefined Arraybuffer]"
    using upper by (rule downloadFile_generic_trace)
  from odd none answer fails upper generic show ?thesis
    by (intro conjI)
qed

section \<open>processScan\<close>

lemmas run_defs =
  io_simps moveFile_def copyObjectAsync_def deleteObjectAsync_def getObjectAsync_def uploadAsync_def
  s3_param_def s3_call_apply s3_read_def s3_write_def parse_copy_source_def
  reqToSubmissionAPI_def getM2Mtoken_apply http_call_apply getreviewTypeId_def cached_def cache_put_def
  downloadFile_def matches_amazonaws_def js_get_def js_first_def
  AV_SCAN_def REVIEW_SCORECARDID_def Let_def

lemmas demo_defs =
  demo_env_def demo_http_def demo_s3uri_def demo_parse_def empty_env_def flaky_env_def
  staged_world_def fresh_world_def
  create_text_def create_json_def scan_text_def scan_json_def clean_scan_json_def
  bare_text_def bare_json_def

lemma processScan_forward:
  fixes env :: env and w :: world
  defines "dest \<equiv> \<lambda>isInfected. (if \<not> truthy isInfected then CLEAN_BUCKET env else QUARANTINE_BUCKET env)"
  assumes slash: "CHR ''/'' \<notin> set (DMZ_BUCKET env)"
    and payload: "js_get message ''payload'' = Inr payload"
    and submissionId: "js_get payload ''submissionId'' = Inr submissionId"
    and fileName: "js_get payload ''fileName'' = Inr (JStr fileName)"
    and infected: "js_get payload ''isInfected'' = Inr isInfected"
    and c: "c = S3CopyObject (dest isInfected) (''/'' @ DMZ_BUCKET env @ ''/'' @ fileName) fileName"
    and d: "d = S3DeleteObject (DMZ_BUCKET env) fileName"
    and p: "p = HttpReq ''PATCH'' (JStr (SUBMISSION_API_URL env @ ''/submissions/'' @ ToString submissionId))
               (JObj [(''url'', JStr (''https://s3.amazonaws.com/'' @ dest isInfected @ ''/'' @ fileName))])
               (Bearer tok1)"
    and r: "r = HttpReq ''POST'' (JStr (SUBMISSION_API_URL env @ ''/reviews''))
               (JObj [(''score'', JNum (if truthy isInfected then 0 else 100)),
                      (''reviewerId'', JStr (uuid env (trace w @ [c, d, M2MToken, p]))),
                      (''submissionId'', submissionId),
                      (''scoreCardId'', JStr ''30001850''),
                      (''typeId'', typeId)])
               (Bearer tok3)"
    and final: "final = (s3 w)((dest isInfected, fileName) \<mapsto> object, (DMZ_BUCKET env, fileName) := None)"
    and moved: "s3_fault env (trace w) c = None"
               "s3 w (DMZ_BUCKET env, fileName) = Some object"
               "s3_fault env (trace w @ [c]) d = None"
    and patched: "getMachineToken env (trace w @ [c, d]) = Inr tok1"
               "http env (trace w @ [c, d, M2MToken]) p = Inr d1"
    and look: "\<And>w2. trace w2 = trace w @ [c, d, M2MToken, p] \<Longrightarrow> reviewTypes w2 = reviewTypes w \<Longrightarrow>
                 getreviewTypeId env AV_SCAN w2 = (Inr typeId, w2\<lparr>trace := trace w2 @ lookup, reviewTypes := rt\<rparr>)"
    and token: "getMachineToken env (trace w @ [c, d, M2MToken, p] @ lookup) = Inr tok3"
  shows "trace (snd (processScan env message w)) = trace w @ [c, d, M2MToken, p] @ lookup @ [M2MToken, r]
       \<and> fst (processScan env message w) =
           (case http env (trace w @ [c, d, M2MToken, p] @ lookup @ [M2MToken]) r of
              Inl e \<Rightarrow> Inl e
            | Inr x \<Rightarrow> Inr JUndefined)
       \<and> s3 (snd (processScan env message w)) = final"
proof -
  define dst where "dst = (if \<not> truthy isInfected then CLEAN_BUCKET env else QUARANTINE_BUCKET env)"
  have dst: "dest isInfected = dst"
    by (simp add: dest_def dst_def)
  note ev = c[unfolded dst] d p[unfolded dst] r final[unfolded dst]
  note look' = look[unfolded ev]
  show ?thesis
    using moved[unfolded ev] patched[unfolded ev] token[unfolded ev]
    unfolding processScan_def ev
    by (simp add: io_simps payload submissionId fileName infected
        moveFile_eval[OF slash] reqToSubmissionAPI_eval look'
        REVIEW_SCORECARDID_def dst_def[symmetric] Let_def split: sum.splits)
qed

text \<open>
  C2. Take a scan payload whose \<open>fileName\<close> is a string and whose \<open>isInfected\<close> is a
  boolean, with the object present in the DMZ area, and suppose the storage service fails
  neither request of the move, the token provider answers, and the Submission API accepts the
  PATCH and the POST (and, when the review type is not cached, answers the lookup with a
  non-empty result set). Then \<open>processScan\<close> completes, and the calls it makes are exactly,
  in this order: the copy of the object from the DMZ area to the destination and the delete of
  the DMZ object (the destination is the quarantine area when \<open>isInfected\<close> is true, the
  clean area when it is false), the PATCH of the submission with the URL of the moved object,
  the review-type lookup (nothing when cached, else one GET), and the POST of a review whose
  score is 0 when infected and 100 when clean and whose \<open>scoreCardId\<close> is the constant
  \<open>30001850\<close>. The object has moved in the store from the DMZ area to the destination.
\<close>

theorem processScan_moves_then_reviews:
  fixes env :: env and w :: world and isInfected :: bool
  defines "destination \<equiv> (if isInfected then QUARANTINE_BUCKET env else CLEAN_BUCKET env)"
  defines "copy \<equiv> \<lambda>fileName. S3CopyObject destination (''/'' @ DMZ_BUCKET env @ ''/'' @ fileName) fileName"
    and "del \<equiv> \<lambda>fileName. S3DeleteObject (DMZ_BUCKET env) fileName"
    and "patch \<equiv> \<lambda>fileName submissionId tok.
             HttpReq ''PATCH'' (JStr (SUBMISSION_API_URL env @ ''/submissions/'' @ ToString submissionId))
               (JObj [(''url'', JStr (''https://s3.amazonaws.com/'' @ destination @ ''/'' @ fileName))])
               (Bearer tok)"
    and "lookup \<equiv> \<lambda>tok. HttpReq ''GET'' (JStr (SUBMISSION_API_URL env @ ''/reviewTypes?name=Virus Scan''))
               JUndefined (Bearer tok)"
    and "review \<equiv> \<lambda>submissionId reviewerId typeId tok.
             HttpReq ''POST'' (JStr (SUBMISSION_API_URL env @ ''/reviews''))
               (JObj [(''score'', JNum (if isInfected then 0 else 100)),
                      (''reviewerId'', JStr reviewerId),
                      (''submissionId'', submissionId),
                      (''scoreCardId'', JStr ''30001850''),
                      (''typeId'', typeId)])
               (Bearer tok)"
  assumes slash: "CHR ''/'' \<notin> set (DMZ_BUCKET env)"
    and payload: "js_get message ''payload'' = Inr payload"
    and submissionId: "js_get payload ''submissionId'' = Inr submissionId"
    and fileName: "js_get payload ''fileName'' = Inr (JStr fileName)"
    and infected: "js_get payload ''isInfected'' = Inr (JBool isInfected)"
    and moved: "s3_fault env (trace w) (copy fileName) = None"
               "s3 w (DMZ_BUCKET env, fileName) = Some object"
               "s3_fault env (trace w @ [copy fileName]) (del fileName) = None"
    and patched: "getMachineToken env (trace w @ [copy fileName, del fileName]) = Inr tok1"
               "http env (trace w @ [copy fileName, del fileName, M2MToken])
                  (patch fileName submissionId tok1) = Inr d1"
    and reviewer: "reviewerId = uuid env (trace w @ [copy fileName, del fileName, M2MToken,
                    patch fileName submissionId tok1])"
  shows "(truthy (cached w AV_SCAN)
          \<and> getMachineToken env (trace w @ [copy fileName, del fileName, M2MToken,
                patch fileName submissionId tok1]) = Inr tok3
          \<and> http env (trace w @ [copy fileName, del fileName, M2MToken,
                patch fileName submissionId tok1, M2MToken])
               (review submissionId reviewerId (cached w AV_SCAN) tok3) = Inr d3
          \<longrightarrow>
            fst (processScan env message w) = Inr JUndefined
          \<and> trace (snd (processScan env message w)) =
               trace w @ [copy fileName, del fileName, M2MToken, patch fileName submissionId tok1,
                          M2MToken, review submissionId reviewerId (cached w AV_SCAN) tok3]
          \<and> s3 (snd (processScan env message w)) =
               (s3 w)((destination, fileName) \<mapsto> object, (DMZ_BUCKET env, fileName) := None))
       \<and> (\<not> truthy (cached w AV_SCAN)
          \<and> getMachineToken env (trace w @ [copy fileName, del fileName, M2MToken,
                patch fileName submissionId tok1]) = Inr tok2
          \<and> http env (trace w @ [copy fileName, del fileName, M2MToken,
                patch fileName submissionId tok1, M2MToken]) (lookup tok2) = Inr (JArr (first # others))
          \<and> js_get first ''id'' = Inr typeId
          \<and> getMachineToken env (trace w @ [copy fileName, del fileName, M2MToken,
                patch fileName submissionId tok1, M2MToken, lookup tok2]) = Inr tok3
          \<and> http env (trace w @ [copy fileName, del fileName, M2MToken,
                patch fileName submissionId tok1, M2MToken, lookup tok2, M2MToken])
               (review submissionId reviewerId typeId tok3) = Inr d3
          \<longrightarrow>
            fst (processScan env message w) = Inr JUndefined
          \<and> trace (snd (processScan env message w)) =
               trace w @ [copy fileName, del fileName, M2MToken, patch fileName submissionId tok1,
                          M2MToken, lookup tok2,
                          M2MToken, review submissionId reviewerId typeId tok3]
          \<and> s3 (snd (processScan env message w)) =
               (s3 w)((destination, fileName) \<mapsto> object, (DMZ_BUCKET env, fileName) := None))"
proof -
  let ?c = "copy fileName" and ?d = "del fileName" and ?p = "patch fileName submissionId tok1"
  let ?final = "(s3 w)((destination, fileName) \<mapsto> object, (DMZ_BUCKET env, fileName) := None)"
  have dest: "(if \<not> truthy (JBool isInfected) then CLEAN_BUCKET env else QUARANTINE_BUCKET env) = destination"
    by (simp add: destination_def)
  have score: "(if truthy (JBool isInfected) then 0 else 100) = (if isInfected then 0 else (100 :: int))"
    by simp
  note forward = processScan_forward[OF slash payload submissionId fileName infected,
      where c = ?c and d = ?d and p = ?p and ?tok1.0 = tok1 and object = object and final = ?final
        and ?d1.0 = d1,
      unfolded dest score, OF _ _ _ _ _ moved patched]
  have hit: "fst (processScan env message w) = Inr JUndefined
          \<and> trace (snd (processScan env message w)) =
               trace w @ [?c, ?d, M2MToken, ?p, M2MToken, review submissionId reviewerId (cached w AV_SCAN) tok3]
          \<and> s3 (snd (processScan env message w)) = ?final"
    if a: "truthy (cached w AV_SCAN)
          \<and> getMachineToken env (trace w @ [?c, ?d, M2MToken, ?p]) = Inr tok3
          \<and> http env (trace w @ [?c, ?d, M2MToken, ?p, M2MToken])
               (review submissionId reviewerId (cached w AV_SCAN) tok3) = Inr d3"
  proof -
    have look: "getreviewTypeId env AV_SCAN w2
        = (Inr (cached w AV_SCAN), w2\<lparr>trace := trace w2 @ [], reviewTypes := reviewTypes w\<rparr>)"
      if "trace w2 = trace w @ [?c, ?d, M2MToken, ?p]" "reviewTypes w2 = reviewTypes w" for w2
    proof -
      have "cached w2 AV_SCAN = cached w AV_SCAN"
        using that(2) by (simp add: cached_def)
      with a have "getreviewTypeId env AV_SCAN w2 = (Inr (cached w AV_SCAN), w2)"
        using getreviewTypeId_hit[of w2 AV_SCAN env] by simp
      then show ?thesis
        using that(2)[symmetric] by simp
    qed
    from forward[where r = "review submissionId reviewerId (cached w AV_SCAN) tok3"
        and typeId = "cached w AV_SCAN" and ?tok3.0 = tok3 and lookup = "[]" and rt = "reviewTypes w"]
      look a
    show ?thesis
      by (simp add: copy_def del_def patch_def review_def reviewer)
  qed
  have miss: "fst (processScan env message w) = Inr JUndefined
          \<and> trace (snd (processScan env message w)) =
               trace w @ [?c, ?d, M2MToken, ?p, M2MToken, lookup tok2,
                          M2MToken, review submissionId reviewerId typeId tok3]
          \<and> s3 (snd (processScan env message w)) = ?final"
    if a: "\<not> truthy (cached w AV_SCAN)
          \<and> getMachineToken env (trace w @ [?c, ?d, M2MToken, ?p]) = Inr tok2
          \<and> http env (trace w @ [?c, ?d, M2MToken, ?p, M2MToken]) (lookup tok2) = Inr (JArr (first # others))
          \<and> js_get first ''id'' = Inr typeId
          \<and> getMachineToken env (trace w @ [?c, ?d, M2MToken, ?p, M2MToken, lookup tok2]) = Inr tok3
          \<and> http env (trace w @ [?c, ?d, M2MToken, ?p, M2MToken, lookup tok2, M2MToken])
               (review submissionId reviewerId typeId tok3) = Inr d3"
  proof -
    have look: "getreviewTypeId env AV_SCAN w2
        = (Inr typeId, w2\<lparr>trace := trace w2 @ [M2MToken, lookup tok2],
                            reviewTypes := (reviewTypes w)(AV_SCAN \<mapsto> typeId)\<rparr>)"
      if "trace w2 = trace w @ [?c, ?d, M2MToken, ?p]" "reviewTypes w2 = reviewTypes w" for w2
    proof -
      have "\<not> truthy (cached w2 AV_SCAN)"
        using a that(2) by (simp add: cached_def)
      then show ?thesis
        using a that unfolding lookup_def
        by (simp add: getreviewTypeId_miss js_get_length_JArr js_first_def AV_SCAN_def Let_def)
    qed
    from forward[where r = "review submissionId reviewerId typeId tok3"
        and typeId = typeId and ?tok3.0 = tok3 and lookup = "[M2MToken, lookup tok2]"
        and rt = "(reviewTypes w)(AV_SCAN \<mapsto> typeId)"]
      look a
    show ?thesis
      by (simp add: copy_def del_def patch_def review_def reviewer)
  qed
  from hit miss show ?thesis
    by blast
qed

theorem processScan_moves_then_reviews_witness:
  "fst (processScan demo_env scan_json staged_world) = Inr JUndefined
   \<and> trace (snd (processScan demo_env scan_json staged_world)) =
     [S3CopyObject ''quarantine'' ''/dmz/abc123.zip'' ''abc123.zip'',
      S3DeleteObject ''dmz'' ''abc123.zip'',
      M2MToken,
      HttpReq ''PATCH'' (JStr ''https://api/v5/submissions/abc123'')
        (JObj [(''url'', JStr ''https://s3.amazonaws.com/quarantine/abc123.zip'')]) (Bearer ''token''),
      M2MToken,
      HttpReq ''GET'' (JStr ''https://api/v5/reviewTypes?name=Virus Scan'') JUndefined (Bearer ''token''),
      M2MToken,
      HttpReq ''POST'' (JStr ''https://api/v5/reviews'')
        (JObj [(''score'', JNum 0), (''reviewerId'', JStr ''reviewer-1''), (''submissionId'', JStr ''abc123''),
               (''scoreCardId'', JStr ''30001850''), (''typeId'', JStr ''rt-virus-scan'')]) (Bearer ''token'')]
   \<and> s3 (snd (processScan demo_env scan_json staged_world)) =
       (s3 staged_world)((''quarantine'', ''abc123.zip'') \<mapsto> ''PK-file-bytes'', (''dmz'', ''abc123.zip'') := None)
   \<and> fst (processScan demo_env clean_scan_json warm_world) = Inr JUndefined
   \<and> trace (snd (processScan demo_env clean_scan_json warm_world)) =
     [S3CopyObject ''clean'' ''/dmz/abc123.zip'' ''abc123.zip'',
      S3DeleteObject ''dmz'' ''abc123.zip'',
      M2MToken,
      HttpReq ''PATCH'' (JStr ''https://api/v5/submissions/abc123'')
        (JObj [(''url'', JStr ''https://s3.amazonaws.com/clean/abc123.zip'')]) (Bearer ''token''),
      M2MToken,
      HttpReq ''POST'' (JStr ''https://api/v5/reviews'')
        (JObj [(''score'', JNum 100), (''reviewerId'', JStr ''reviewer-1''), (''submissionId'', JStr ''abc123''),
               (''scoreCardId'', JStr ''30001850''), (''typeId'', JStr ''rt-virus-scan'')]) (Bearer ''token'')]
   \<and> s3 (snd (processScan demo_env clean_scan_json warm_world)) =
       (s3 warm_world)((''clean'', ''abc123.zip'') \<mapsto> ''PK-file-bytes'', (''dmz'', ''abc123.zip'') := None)"
proof -
  let ?payload = "\<lambda>b. JObj [(''submissionId'', JStr ''abc123''), (''fileName'', JStr ''abc123.zip''),
                         (''status'', JStr ''scanned''), (''isInfected'', JBool b)]"
  have slash: "CHR ''/'' \<notin> set (DMZ_BUCKET demo_env)"
    by (simp add: demo_env_def)
  have p1: "js_get scan_json ''payload'' = Inr (?payload True)"
    and p0: "js_get clean_scan_json ''payload'' = Inr (?payload False)"
    and sid: "js_get (?payload b) ''submissionId'' = Inr (JStr ''abc123'')"
    and fn: "js_get (?payload b) ''fileName'' = Inr (JStr ''abc123.zip'')"
    and inf: "js_get (?payload b) ''isInfected'' = Inr (JBool b)" for b
    by (simp_all add: js_get_def scan_json_def clean_scan_json_def)
  note infected = processScan_moves_then_reviews[OF slash p1 sid fn inf, where w = staged_world
        and object = "''PK-file-bytes''" and ?tok1.0 = "''token''" and ?d1.0 = "JObj []"
        and reviewerId = "''reviewer-1''" and ?tok2.0 = "''token''" and ?tok3.0 = "''token''"
        and first = "JObj [(''id'', JStr ''rt-virus-scan''), (''name'', JStr ''Virus Scan'')]"
        and others = "[]" and typeId = "JStr ''rt-virus-scan''" and ?d3.0 = "JObj []",
        THEN conjunct2, THEN mp,
        unfolded demo_env_def staged_world_def cached_def js_get_def demo_http_def AV_SCAN_def,
        simplified]
  note clean = processScan_moves_then_reviews[OF slash p0 sid fn inf, where w = warm_world
        and object = "''PK-file-bytes''" and ?tok1.0 = "''token''" and ?d1.0 = "JObj []"
        and reviewerId = "''reviewer-1''" and ?tok3.0 = "''token''" and ?d3.0 = "JObj []",
        THEN conjunct1, THEN mp,
        unfolded demo_env_def warm_world_def cached_def demo_http_def AV_SCAN_def,
        simplified]
  from infected clean show ?thesis
    unfolding demo_env_def staged_world_def warm_world_def demo_http_def
    by simp
qed

section \<open>processScan when no review type is found\<close>

text \<open>
  C10. Suppose the move and the PATCH succeed and the lookup of \<open>Virus Scan\<close> misses the
  cache and gets an empty result set, so that it returns \<open>null\<close>. Then \<open>processScan\<close>
  goes on: after the copy, the delete and the PATCH it posts the review with \<open>typeId\<close>
  \<open>null\<close>, and its outcome is the outcome of that POST.
\<close>

theorem processScan_null_review_type:
  fixes env :: env and w :: world
  defines "destination \<equiv> \<lambda>isInfected. (if truthy isInfected then QUARANTINE_BUCKET env else CLEAN_BUCKET env)"
  defines "copy \<equiv> \<lambda>isInfected fileName.
             S3CopyObject (destination isInfected) (''/'' @ DMZ_BUCKET env @ ''/'' @ fileName) fileName"
    and "del \<equiv> \<lambda>fileName. S3DeleteObject (DMZ_BUCKET env) fileName"
    and "patch \<equiv> \<lambda>isInfected fileName submissionId tok.
             HttpReq ''PATCH'' (JStr (SUBMISSION_API_URL env @ ''/submissions/'' @ ToString submissionId))
               (JObj [(''url'', JStr (''https://s3.amazonaws.com/'' @ destination isInfected @ ''/'' @ fileName))])
               (Bearer tok)"
    and "lookup \<equiv> \<lambda>tok. HttpReq ''GET'' (JStr (SUBMISSION_API_URL env @ ''/reviewTypes?name=Virus Scan''))
               JUndefined (Bearer tok)"
    and "review \<equiv> \<lambda>isInfected submissionId reviewerId tok.
             HttpReq ''POST'' (JStr (SUBMISSION_API_URL env @ ''/reviews''))
               (JObj [(''score'', JNum (if truthy isInfected then 0 else 100)),
                      (''reviewerId'', JStr reviewerId),
                      (''submissionId'', submissionId),
                      (''scoreCardId'', JStr ''30001850''),
                      (''typeId'', JNull)])
               (Bearer tok)"
  assumes slash: "CHR ''/'' \<notin> set (DMZ_BUCKET env)"
    and payload: "js_get message ''payload'' = Inr payload"
    and submissionId: "js_get payload ''submissionId'' = Inr submissionId"
    and fileName: "js_get payload ''fileName'' = Inr (JStr fileName)"
    and infected: "js_get payload ''isInfected'' = Inr isInfected"
    and moved: "s3_fault env (trace w) (copy isInfected fileName) = None"
               "s3 w (DMZ_BUCKET env, fileName) = Some object"
               "s3_fault env (trace w @ [copy isInfected fileName]) (del fileName) = None"
    and patched: "getMachineToken env (trace w @ [copy isInfected fileName, del fileName]) = Inr tok1"
               "http env (trace w @ [copy isInfected fileName, del fileName, M2MToken])
                  (patch isInfected fileName submissionId tok1) = Inr d1"
    and miss: "\<not> truthy (cached w AV_SCAN)"
    and empty: "getMachineToken env (trace w @ [copy isInfected fileName, del fileName, M2MToken,
                    patch isInfected fileName submissionId tok1]) = Inr tok2"
               "http env (trace w @ [copy isInfected fileName, del fileName, M2MToken,
                    patch isInfected fileName submissionId tok1, M2MToken]) (lookup tok2) = Inr (JArr [])"
    and token: "getMachineToken env (trace w @ [copy isInfected fileName, del fileName, M2MToken,
                    patch isInfected fileName submissionId tok1, M2MToken, lookup tok2]) = Inr tok3"
  shows "trace (snd (processScan env message w)) =
           trace w @ [copy isInfected fileName, del fileName, M2MToken,
                      patch isInfected fileName submissionId tok1, M2MToken, lookup tok2, M2MToken,
                      review isInfected submissionId
                        (uuid env (trace w @ [copy isInfected fileName, del fileName, M2MToken,
                                              patch isInfected fileName submissionId tok1])) tok3]
       \<and> fst (processScan env message w) =
           (case http env (trace w @ [copy isInfected fileName, del fileName, M2MToken,
                      patch isInfected fileName submissionId tok1, M2MToken, lookup tok2, M2MToken])
                   (review isInfected submissionId
                        (uuid env (trace w @ [copy isInfected fileName, del fileName, M2MToken,
                                              patch isInfected fileName submissionId tok1])) tok3) of
              Inl e \<Rightarrow> Inl e
            | Inr d \<Rightarrow> Inr JUndefined)"
proof -
  define dest where "dest = (if \<not> truthy isInfected then CLEAN_BUCKET env else QUARANTINE_BUCKET env)"
  have dest: "destination isInfected = dest"
    by (simp add: dest_def destination_def)
  define c where "c = S3CopyObject dest (''/'' @ DMZ_BUCKET env @ ''/'' @ fileName) fileName"
  define d where "d = S3DeleteObject (DMZ_BUCKET env) fileName"
  define p where "p = HttpReq ''PATCH'' (JStr (SUBMISSION_API_URL env @ ''/submissions/'' @ ToString submissionId))
               (JObj [(''url'', JStr (''https://s3.amazonaws.com/'' @ dest @ ''/'' @ fileName))])
               (Bearer tok1)"
  define l where "l = lookup tok2"
  define rid where "rid = uuid env (trace w @ [c, d, M2MToken, p])"
  define r where "r = (\<lambda>score. HttpReq ''POST'' (JStr (SUBMISSION_API_URL env @ ''/reviews''))
               (JObj [(''score'', JNum score),
                      (''reviewerId'', JStr rid),
                      (''submissionId'', submissionId),
                      (''scoreCardId'', JStr ''30001850''),
                      (''typeId'', JNull)])
               (Bearer tok3))"
  have c: "copy isInfected fileName = c"
    and d: "del fileName = d"
    and p: "patch isInfected fileName submissionId tok1 = p"
    by (simp_all add: c_def d_def p_def copy_def del_def patch_def dest)
  have r: "review isInfected submissionId rid tok3 = r (if truthy isInfected then 0 else 100)"
    by (simp add: r_def review_def)
  note hyps = moved[unfolded c d] patched[unfolded c d p] empty[unfolded c d p, folded l_def]
    token[unfolded c d p, folded l_def]
  have miss': "\<not> truthy (cached w' AV_SCAN)" if "reviewTypes w' = reviewTypes w" for w'
    using miss that by (simp add: cached_def)
  have "trace (snd (processScan env message w))
          = trace w @ [c, d, M2MToken, p, M2MToken, l, M2MToken, r (if truthy isInfected then 0 else 100)]
      \<and> fst (processScan env message w) =
          (case http env (trace w @ [c, d, M2MToken, p, M2MToken, l, M2MToken])
                  (r (if truthy isInfected then 0 else 100)) of
             Inl e \<Rightarrow> Inl e | Inr x \<Rightarrow> Inr JUndefined)"
    using hyps
    unfolding processScan_def c_def d_def p_def l_def r_def rid_def lookup_def
    by (simp add: io_simps payload submissionId fileName infected
        moveFile_eval[OF slash] reqToSubmissionAPI_eval getreviewTypeId_miss miss'
        js_get_length_JArr AV_SCAN_def[symmetric] REVIEW_SCORECARDID_def
        dest_def[symmetric] Let_def split: sum.splits)
  then show ?thesis
    unfolding c d p r[unfolded rid_def] l_def .
qed

theorem processScan_null_review_type_witness:
  "\<not> truthy (cached staged_world AV_SCAN)
   \<and> http empty_env [S3CopyObject ''quarantine'' ''/dmz/abc123.zip'' ''abc123.zip'',
         S3DeleteObject ''dmz'' ''abc123.zip'', M2MToken,
         HttpReq ''PATCH'' (JStr ''https://api/v5/submissions/abc123'')
           (JObj [(''url'', JStr ''https://s3.amazonaws.com/quarantine/abc123.zip'')]) (Bearer ''token''),
         M2MToken]
         (HttpReq ''GET'' (JStr ''https://api/v5/reviewTypes?name=Virus Scan'') JUndefined (Bearer ''token''))
       = Inr (JArr [])
   \<and> trace (snd (processScan empty_env scan_json staged_world)) =
     [S3CopyObject ''quarantine'' ''/dmz/abc123.zip'' ''abc123.zip'',
      S3DeleteObject ''dmz'' ''abc123.zip'',
      M2MToken,
      HttpReq ''PATCH'' (JStr ''https://api/v5/submissions/abc123'')
        (JObj [(''url'', JStr ''https://s3.amazonaws.com/quarantine/abc123.zip'')]) (Bearer ''token''),
      M2MToken,
      HttpReq ''GET'' (JStr ''https://api/v5/reviewTypes?name=Virus Scan'') JUndefined (Bearer ''token''),
      M2MToken,
      HttpReq ''POST'' (JStr ''https://api/v5/reviews'')
        (JObj [(''score'', JNum 0), (''reviewerId'', JStr ''reviewer-1''), (''submissionId'', JStr ''abc123''),
               (''scoreCardId'', JStr ''30001850''), (''typeId'', JNull)]) (Bearer ''token'')]
   \<and> fst (processScan empty_env scan_json staged_world) = Inr JUndefined"
proof -
  let ?payload = "JObj [(''submissionId'', JStr ''abc123''), (''fileName'', JStr ''abc123.zip''),
                        (''status'', JStr ''scanned''), (''isInfected'', JBool True)]"
  have miss: "\<not> truthy (cached staged_world AV_SCAN)"
    by (simp add: cached_def staged_world_def)
  have empty: "http empty_env [S3CopyObject ''quarantine'' ''/dmz/abc123.zip'' ''abc123.zip'',
         S3DeleteObject ''dmz'' ''abc123.zip'', M2MToken,
         HttpReq ''PATCH'' (JStr ''https://api/v5/submissions/abc123'')
           (JObj [(''url'', JStr ''https://s3.amazonaws.com/quarantine/abc123.zip'')]) (Bearer ''token''),
         M2MToken]
         (HttpReq ''GET'' (JStr ''https://api/v5/reviewTypes?name=Virus Scan'') JUndefined (Bearer ''token''))
       = Inr (JArr [])"
    by (simp add: empty_env_def demo_env_def)
  have "trace (snd (processScan empty_env scan_json staged_world)) =
     [S3CopyObject ''quarantine'' ''/dmz/abc123.zip'' ''abc123.zip'',
      S3DeleteObject ''dmz'' ''abc123.zip'',
      M2MToken,
      HttpReq ''PATCH'' (JStr ''https://api/v5/submissions/abc123'')
        (JObj [(''url'', JStr ''https://s3.amazonaws.com/quarantine/abc123.zip'')]) (Bearer ''token''),
      M2MToken,
      HttpReq ''GET'' (JStr ''https://api/v5/reviewTypes?name=Virus Scan'') JUndefined (Bearer ''token''),
      M2MToken,
      HttpReq ''POST'' (JStr ''https://api/v5/reviews'')
        (JObj [(''score'', JNum 0), (''reviewerId'', JStr ''reviewer-1''), (''submissionId'', JStr ''abc123''),
               (''scoreCardId'', JStr ''30001850''), (''typeId'', JNull)]) (Bearer ''token'')]
   \<and> fst (processScan empty_env scan_json staged_world) = Inr JUndefined"
    using processScan_null_review_type[where env = empty_env and message = scan_json
        and payload = ?payload and submissionId = "JStr ''abc123''" and fileName = "''abc123.zip''"
        and isInfected = "JBool True" and w = staged_world and object = "''PK-file-bytes''"
        and ?tok1.0 = "''token''" and ?d1.0 = "JArr []" and ?tok2.0 = "''token''" and ?tok3.0 = "''token''"]
      miss
    by (simp add: empty_env_def demo_env_def staged_world_def scan_json_def js_get_def)
  with miss empty show ?thesis
    by blast
qed

section \<open>processCreate\<close>

lemma getObjectAsync_eval:
  "getObjectAsync env (JStr b) (JStr k) w =
     (case s3_fault env (trace w) (S3GetObject b k) of
        Some err \<Rightarrow> Inl err
      | None \<Rightarrow> (case s3 w (b, k) of
                   None \<Rightarrow> Inl (ServiceError (Some 404) ''NoSuchKey'')
                 | Some body \<Rightarrow> Inr (JStr body)),
      w\<lparr>trace := trace w @ [S3GetObject b k]\<rparr>)"
  by (simp add: getObjectAsync_def io_simps s3_param_JStr s3_call_apply s3_read_def
      split: option.splits)

lemma uploadAsync_eval:
  "uploadAsync env (JStr b) (JStr k) (JStr body) w =
     (case s3_fault env (trace w) (S3Upload b k body) of
        Some err \<Rightarrow> (Inl err, w\<lparr>trace := trace w @ [S3Upload b k body]\<rparr>)
      | None \<Rightarrow> (Inr (), w\<lparr>trace := trace w @ [S3Upload b k body], s3 := (s3 w)((b, k) \<mapsto> body)\<rparr>))"
  by (simp add: uploadAsync_def io_simps s3_param_JStr s3_call_apply s3_write_def
      split: option.splits)

text \<open>
  C3. Take a payload whose resource is \<open>submission\<close>, and let \<open>fileName\<close> be the key
  \<open>{id}.{fileType}\<close>. If the probe of the DMZ area fails with not-found, the download of
  \<open>payload.url\<close> answers some bytes (by one generic GET when the URL fails the storage test,
  by one storage read at the parsed bucket and key when it passes), the upload meets no fault
  and the scan service accepts the request, then \<open>processCreate\<close> returns \<open>true\<close> and the
  calls it makes are exactly the probe, that one download, one upload of the bytes the download
  answered to the DMZ area under \<open>fileName\<close>, and one scan request, in this order; the store
  then holds those bytes under that key. If the probe finds the object and the scan service
  accepts the request, \<open>processCreate\<close> returns \<open>true\<close> and the calls it makes are exactly
  the probe and one scan request, with no download and no upload; the store is unchanged.
\<close>

theorem processCreate_stages_then_scans:
  fixes env :: env and w :: world
  defines "dmz \<equiv> DMZ_BUCKET env"
  defines "probe \<equiv> \<lambda>fileName. S3GetObject dmz fileName"
    and "fetch \<equiv> \<lambda>url. HttpReq ''GET'' url JUndefined Arraybuffer"
    and "scan \<equiv> \<lambda>ident fileName.
           HttpReq ''POST'' (JStr (ANTIVIRUS_API_URL env))
             (JObj [(''submissionId'', ident),
                    (''url'', JStr (''https://s3.amazonaws.com/'' @ dmz @ ''/'' @ fileName)),
                    (''fileName'', JStr fileName)])
             (MaxContentLength (MAXFILESIZE env))"
  defines "not_found \<equiv> \<lambda>fileName.
           (case s3_fault env (trace w) (probe fileName) of
              Some e \<Rightarrow> statusCode e = JNum 404
            | None \<Rightarrow> s3 w (dmz, fileName) = None)"
  assumes payload: "js_get message ''payload'' = Inr payload"
    and resource: "js_get payload ''resource'' = Inr (JStr ''submission'')"
    and ident: "js_get payload ''id'' = Inr ident"
    and fileType: "js_get payload ''fileType'' = Inr fileType"
    and url: "js_get payload ''url'' = Inr url"
    and key: "fileName = ToString ident @ ''.'' @ ToString fileType"
  shows "(not_found fileName
          \<and> \<not> matches_amazonaws url
          \<and> http env (trace w @ [probe fileName]) (fetch url) = Inr (JStr bytes)
          \<and> s3_fault env (trace w @ [probe fileName, fetch url]) (S3Upload dmz fileName bytes) = None
          \<and> http env (trace w @ [probe fileName, fetch url, S3Upload dmz fileName bytes])
               (scan ident fileName) = Inr answer
          \<longrightarrow>
            fst (processCreate env message w) = Inr (JBool True)
          \<and> trace (snd (processCreate env message w)) =
               trace w @ [probe fileName, fetch url, S3Upload dmz fileName bytes, scan ident fileName]
          \<and> s3 (snd (processCreate env message w)) = (s3 w)((dmz, fileName) \<mapsto> bytes))
       \<and> (not_found fileName
          \<and> matches_amazonaws url
          \<and> AmazonS3URI env url = Inr (JStr bucket, JStr object)
          \<and> s3_fault env (trace w @ [probe fileName]) (S3GetObject bucket object) = None
          \<and> s3 w (bucket, object) = Some bytes
          \<and> s3_fault env (trace w @ [probe fileName, S3GetObject bucket object])
               (S3Upload dmz fileName bytes) = None
          \<and> http env (trace w @ [probe fileName, S3GetObject bucket object, S3Upload dmz fileName bytes])
               (scan ident fileName) = Inr answer
          \<longrightarrow>
            fst (processCreate env message w) = Inr (JBool True)
          \<and> trace (snd (processCreate env message w)) =
               trace w @ [probe fileName, S3GetObject bucket object, S3Upload dmz fileName bytes,
                          scan ident fileName]
          \<and> s3 (snd (processCreate env message w)) = (s3 w)((dmz, fileName) \<mapsto> bytes))
       \<and> (s3_fault env (trace w) (probe fileName) = None
          \<and> s3 w (dmz, fileName) = Some staged
          \<and> http env (trace w @ [probe fileName]) (scan ident fileName) = Inr answer
          \<longrightarrow>
            fst (processCreate env message w) = Inr (JBool True)
          \<and> trace (snd (processCreate env message w)) =
               trace w @ [probe fileName, scan ident fileName]
          \<and> s3 (snd (processCreate env message w)) = s3 w)"
proof -
  have data: "js_get (JObj [(''data'', x)]) ''data'' = Inr x" for x
    by (simp add: js_get_def)
  note defs = processCreate_def io_simps payload resource ident fileType url data
    getObjectAsync_eval uploadAsync_eval downloadFile_def http_call_apply Let_def
  have generic: "fst (processCreate env message w) = Inr (JBool True)
          \<and> trace (snd (processCreate env message w)) =
               trace w @ [probe fileName, fetch url, S3Upload dmz fileName bytes, scan ident fileName]
          \<and> s3 (snd (processCreate env message w)) = (s3 w)((dmz, fileName) \<mapsto> bytes)"
    if "not_found fileName
          \<and> \<not> matches_amazonaws url
          \<and> http env (trace w @ [probe fileName]) (fetch url) = Inr (JStr bytes)
          \<and> s3_fault env (trace w @ [probe fileName, fetch url]) (S3Upload dmz fileName bytes) = None
          \<and> http env (trace w @ [probe fileName, fetch url, S3Upload dmz fileName bytes])
               (scan ident fileName) = Inr answer"
    using that
    unfolding not_found_def probe_def fetch_def scan_def dmz_def key
    by (cases "s3_fault env (trace w) (S3GetObject (DMZ_BUCKET env) (ToString ident @ ''.'' @ ToString fileType))")
      (simp_all add: defs)
  have native: "fst (processCreate env message w) = Inr (JBool True)
          \<and> trace (snd (processCreate env message w)) =
               trace w @ [probe fileName, S3GetObject bucket object, S3Upload dmz fileName bytes,
                          scan ident fileName]
          \<and> s3 (snd (processCreate env message w)) = (s3 w)((dmz, fileName) \<mapsto> bytes)"
    if "not_found fileName
          \<and> matches_amazonaws url
          \<and> AmazonS3URI env url = Inr (JStr bucket, JStr object)
          \<and> s3_fault env (trace w @ [probe fileName]) (S3GetObject bucket object) = None
          \<and> s3 w (bucket, object) = Some bytes
          \<and> s3_fault env (trace w @ [probe fileName, S3GetObject bucket object])
               (S3Upload dmz fileName bytes) = None
          \<and> http env (trace w @ [probe fileName, S3GetObject bucket object, S3Upload dmz fileName bytes])
               (scan ident fileName) = Inr answer"
    using that
    unfolding not_found_def probe_def fetch_def scan_def dmz_def key
    by (cases "s3_fault env (trace w) (S3GetObject (DMZ_BUCKET env) (ToString ident @ ''.'' @ ToString fileType))")
      (simp_all add: defs)
  have found: "fst (processCreate env message w) = Inr (JBool True)
          \<and> trace (snd (processCreate env message w)) =
               trace w @ [probe fileName, scan ident fileName]
          \<and> s3 (snd (processCreate env message w)) = s3 w"
    if "s3_fault env (trace w) (probe fileName) = None
          \<and> s3 w (dmz, fileName) = Some staged
          \<and> http env (trace w @ [probe fileName]) (scan ident fileName) = Inr answer"
    using that
    unfolding probe_def scan_def dmz_def key
    by (simp add: defs)
  from generic native found show ?thesis
    by blast
qed

theorem processCreate_stages_then_scans_witness:
  "fst (processCreate demo_env create_json fresh_world) = Inr (JBool True)
   \<and> trace (snd (processCreate demo_env create_json fresh_world)) =
       [S3GetObject ''dmz'' ''abc123.zip'',
        HttpReq ''GET'' (JStr ''http://host/file.zip'') JUndefined Arraybuffer,
        S3Upload ''dmz'' ''abc123.zip'' ''PK-file-bytes'',
        HttpReq ''POST'' (JStr ''https://av/scan'')
          (JObj [(''submissionId'', JStr ''abc123''),
                 (''url'', JStr ''https://s3.amazonaws.com/dmz/abc123.zip''),
                 (''fileName'', JStr ''abc123.zip'')])
          (MaxContentLength (JNum 1000))]
   \<and> s3 (snd (processCreate demo_env create_json fresh_world)) =
       (s3 fresh_world)((''dmz'', ''abc123.zip'') \<mapsto> ''PK-file-bytes'')
   \<and> fst (processCreate demo_env native_create_json uploaded_world) = Inr (JBool True)
   \<and> trace (snd (processCreate demo_env native_create_json uploaded_world)) =
       [S3GetObject ''dmz'' ''abc123.zip'',
        S3GetObject ''uploads'' ''abc123.zip'',
        S3Upload ''dmz'' ''abc123.zip'' ''PK-file-bytes'',
        HttpReq ''POST'' (JStr ''https://av/scan'')
          (JObj [(''submissionId'', JStr ''abc123''),
                 (''url'', JStr ''https://s3.amazonaws.com/dmz/abc123.zip''),
                 (''fileName'', JStr ''abc123.zip'')])
          (MaxContentLength (JNum 1000))]
   \<and> s3 (snd (processCreate demo_env native_create_json uploaded_world)) =
       (s3 uploaded_world)((''dmz'', ''abc123.zip'') \<mapsto> ''PK-file-bytes'')
   \<and> fst (processCreate demo_env create_json staged_world) = Inr (JBool True)
   \<and> trace (snd (processCreate demo_env create_json staged_world)) =
       [S3GetObject ''dmz'' ''abc123.zip'',
        HttpReq ''POST'' (JStr ''https://av/scan'')
          (JObj [(''submissionId'', JStr ''abc123''),
                 (''url'', JStr ''https://s3.amazonaws.com/dmz/abc123.zip''),
                 (''fileName'', JStr ''abc123.zip'')])
          (MaxContentLength (JNum 1000))]
   \<and> s3 (snd (processCreate demo_env create_json staged_world)) = s3 staged_world"
proof -
  let ?payload = "\<lambda>u. JObj [(''id'', JStr ''abc123''), (''resource'', JStr ''submission''),
                        (''fileType'', JStr ''zip''), (''url'', JStr u)]"
  have payload: "js_get create_json ''payload'' = Inr (?payload ''http://host/file.zip'')"
    and payload': "js_get native_create_json ''payload''
        = Inr (?payload ''https://s3.amazonaws.com/uploads/abc123.zip'')"
    and resource: "js_get (?payload u) ''resource'' = Inr (JStr ''submission'')"
    and ident: "js_get (?payload u) ''id'' = Inr (JStr ''abc123'')"
    and fileType: "js_get (?payload u) ''fileType'' = Inr (JStr ''zip'')"
    and url: "js_get (?payload u) ''url'' = Inr (JStr u)"
    and key: "''abc123.zip'' = ToString (JStr ''abc123'') @ ''.'' @ ToString (JStr ''zip'')" for u
    by (simp_all add: js_get_def create_json_def native_create_json_def)
  note generic = processCreate_stages_then_scans[OF payload resource ident fileType url key,
      where env = demo_env and w = fresh_world and bytes = "''PK-file-bytes''" and answer = "JObj []",
      THEN conjunct1, THEN mp,
      unfolded demo_env_def fresh_world_def demo_http_def matches_amazonaws_def, simplified]
  note native = processCreate_stages_then_scans[OF payload' resource ident fileType url key,
      where env = demo_env and w = uploaded_world and bytes = "''PK-file-bytes''" and answer = "JObj []"
        and bucket = "''uploads''" and object = "''abc123.zip''",
      THEN conjunct2, THEN conjunct1, THEN mp,
      unfolded demo_env_def uploaded_world_def demo_http_def demo_s3uri_def matches_amazonaws_def,
      simplified]
  note found = processCreate_stages_then_scans[OF payload resource ident fileType url key,
      where env = demo_env and w = staged_world and staged = "''PK-file-bytes''" and answer = "JObj []",
      THEN conjunct2, THEN conjunct2, THEN mp,
      unfolded demo_env_def staged_world_def demo_http_def, simplified]
  from generic native found show ?thesis
    unfolding demo_env_def fresh_world_def uploaded_world_def staged_world_def demo_http_def
      demo_s3uri_def
    by simp
qed

section \<open>No workflow commits an offset\<close>

lemma commits_append: "commits (xs @ ys) = commits xs @ commits ys"
  by (simp add: commits_def)

lemma quietI:
  assumes "\<And>w. \<exists>evs. trace (snd (m w)) = trace w @ evs \<and> commits evs = []"
  shows "quiet m"
  using assms by (simp add: quiet_def)

lemma quiet_same:
  assumes "\<And>w. trace (snd (m w)) = trace w"
  shows "quiet m"
proof (rule quietI)
  fix w
  have "trace (snd (m w)) = trace w @ [] \<and> commits [] = []"
    using assms by (simp add: commits_def)
  then show "\<exists>evs. trace (snd (m w)) = trace w @ evs \<and> commits evs = []"
    by blast
qed

lemma quiet_one:
  assumes "\<not> is_commit e" and "\<And>w. trace (snd (m w)) = trace w @ [e]"
  shows "quiet m"
proof (rule quietI)
  fix w
  have "trace (snd (m w)) = trace w @ [e] \<and> commits [e] = []"
    using assms by (simp add: commits_def)
  then show "\<exists>evs. trace (snd (m w)) = trace w @ evs \<and> commits evs = []"
    by blast
qed

lemma quiet_ret: "quiet (ret x)"
  by (rule quiet_same) (simp add: ret_def)

lemma quiet_throw: "quiet (throw e)"
  by (rule quiet_same) (simp add: throw_def)

lemma quiet_lift: "quiet (lift r)"
  by (rule quiet_same) (simp add: lift_def)

lemma quiet_logger: "quiet (logger lvl a)"
  by (rule quiet_same) (simp add: logger_def)

lemma quiet_read: "quiet (\<lambda>w. (Inr (f w), w))"
  by (rule quiet_same) simp

lemma quiet_s3_read: "quiet (s3_read b k)"
  by (rule quiet_same) (simp add: s3_read_def split: option.splits)

lemma quiet_s3_write: "quiet (s3_write b k v)"
  by (rule quiet_same) (simp add: s3_write_def)

lemma quiet_cache_put: "quiet (cache_put name v)"
  by (rule quiet_same) (simp add: cache_put_def)

lemma quiet_s3_call: "\<not> is_commit e \<Longrightarrow> quiet (s3_call env e)"
  by (rule quiet_one) (simp_all add: s3_call_apply)

lemma quiet_http_call: "\<not> is_commit e \<Longrightarrow> quiet (http_call env e)"
  by (rule quiet_one) (simp_all add: http_call_apply)

lemma quiet_getM2Mtoken: "quiet (getM2Mtoken env)"
  by (rule quiet_one[of M2MToken]) (simp_all add: getM2Mtoken_apply)

lemma quiet_bind:
  assumes m: "quiet m" and f: "\<And>x. quiet (f x)"
  shows "quiet (bind m f)"
proof (rule quietI)
  fix w
  from m obtain evs where evs: "trace (snd (m w)) = trace w @ evs" "commits evs = []"
    unfolding quiet_def by blast
  show "\<exists>evs. trace (snd (bind m f w)) = trace w @ evs \<and> commits evs = []"
  proof (cases "m w")
    case (Pair r w1)
    show ?thesis
    proof (cases r)
      case (Inl e)
      with Pair evs show ?thesis
        by (auto simp: bind_def)
    next
      case (Inr x)
      from f obtain evs' where evs': "trace (snd (f x w1)) = trace w1 @ evs'" "commits evs' = []"
        unfolding quiet_def by blast
      with Pair Inr evs have "trace (snd (bind m f w)) = trace w @ (evs @ evs') \<and> commits (evs @ evs') = []"
        by (simp add: bind_def commits_append)
      then show ?thesis
        by blast
    qed
  qed
qed

lemma quiet_catch:
  assumes m: "quiet m" and h: "\<And>e. quiet (h e)"
  shows "quiet (catch m h)"
proof (rule quietI)
  fix w
  from m obtain evs where evs: "trace (snd (m w)) = trace w @ evs" "commits evs = []"
    unfolding quiet_def by blast
  show "\<exists>evs. trace (snd (catch m h w)) = trace w @ evs \<and> commits evs = []"
  proof (cases "m w")
    case (Pair r w1)
    show ?thesis
    proof (cases r)
      case (Inr x)
      with Pair evs show ?thesis
        by (auto simp: catch_def)
    next
      case (Inl e)
      from h obtain evs' where evs': "trace (snd (h e w1)) = trace w1 @ evs'" "commits evs' = []"
        unfolding quiet_def by blast
      with Pair Inl evs have "trace (snd (catch m h w)) = trace w @ (evs @ evs') \<and> commits (evs @ evs') = []"
        by (simp add: catch_def commits_append)
      then show ?thesis
        by blast
    qed
  qed
qed

lemma quiet_if: "quiet a \<Longrightarrow> quiet b \<Longrightarrow> quiet (if c then a else b)"
  by simp

lemma quiet_case_prod: "(\<And>a b. quiet (f a b)) \<Longrightarrow> quiet (case p of (a, b) \<Rightarrow> f a b)"
  by (cases p) simp

lemmas quiet_rules =
  quiet_bind quiet_catch quiet_if quiet_case_prod quiet_ret quiet_throw quiet_lift quiet_logger
  quiet_read quiet_s3_read quiet_s3_write quiet_cache_put quiet_s3_call quiet_http_call
  quiet_getM2Mtoken

lemma quiet_getObjectAsync: "quiet (getObjectAsync env Bucket Key)"
  unfolding getObjectAsync_def by (intro quiet_rules) simp

lemma quiet_uploadAsync: "quiet (uploadAsync env Bucket Key Body)"
  unfolding uploadAsync_def by (intro quiet_rules) simp

lemma quiet_moveFile: "quiet (moveFile env sb sk tb tk)"
  unfolding moveFile_def copyObjectAsync_def deleteObjectAsync_def
  by (intro quiet_rules) simp_all

lemma quiet_reqToSubmissionAPI: "quiet (reqToSubmissionAPI env reqType path reqBody)"
  unfolding reqToSubmissionAPI_def by (intro quiet_rules) simp_all

lemma quiet_getreviewTypeId: "quiet (getreviewTypeId env name)"
proof -
  let ?miss = "bind (reqToSubmissionAPI env ''GET''
                    (SUBMISSION_API_URL env @ ''/reviewTypes?name='' @ name) (JObj [])) (\<lambda>response.
            bind (lift (js_get response ''data'')) (\<lambda>data.
            bind (lift (js_get data ''length'')) (\<lambda>len.
              if len \<noteq> JNum 0 then
                bind (lift (js_first data)) (\<lambda>first.
                bind (lift (js_get first ''id'')) (\<lambda>i.
                bind (cache_put name i) (\<lambda>_.
                  (\<lambda>w'. (Inr (cached w' name), w')))))
              else ret JNull)))"
  have miss: "quiet ?miss"
    by (intro quiet_rules quiet_reqToSubmissionAPI)
  show ?thesis
  proof (rule quietI)
    fix w
    show "\<exists>evs. trace (snd (getreviewTypeId env name w)) = trace w @ evs \<and> commits evs = []"
    proof (cases "truthy (cached w name)")
      case True
      then have "trace (snd (getreviewTypeId env name w)) = trace w @ [] \<and> commits [] = []"
        by (simp add: getreviewTypeId_hit commits_def)
      then show ?thesis
        by blast
    next
      case False
      then have "getreviewTypeId env name w = ?miss w"
        by (simp add: getreviewTypeId_def)
      with miss show ?thesis
        by (simp add: quiet_def)
    qed
  qed
qed

lemma quiet_downloadFile: "quiet (downloadFile env fileURL)"
  unfolding downloadFile_def
  by (intro quiet_rules quiet_getObjectAsync) simp

lemma quiet_processCreate: "quiet (processCreate env message)"
  unfolding processCreate_def Let_def
  by (intro quiet_rules quiet_getObjectAsync quiet_downloadFile quiet_uploadAsync) simp

lemma quiet_processScan: "quiet (processScan env message)"
  unfolding processScan_def Let_def
  by (intro quiet_rules quiet_moveFile quiet_reqToSubmissionAPI quiet_getreviewTypeId)

lemma quiet_workflow: "quiet (workflow env topic messageJSON)"
  unfolding workflow_def
  by (intro quiet_rules quiet_processCreate quiet_processScan)

section \<open>The dispatcher\<close>

lemma received_apply:
  "received topic partition' m w =
     (Inr (), w\<lparr>logs := logs w @ [(LInfo, Msg (''Handle Kafka event message; Topic: '' @ topic
       @ ''; Partition: '' @ ToString (JNum partition')
       @ ''; Offset: '' @ ToString (JNum (m_offset m))
       @ ''; Message: '' @ m_value m @ ''.''))]\<rparr>)"
  by (simp add: received_def logger_def)

lemma received_world:
  "fst (received topic partition' m w) = Inr ()"
  "trace (snd (received topic partition' m w)) = trace w"
  "s3 (snd (received topic partition' m w)) = s3 w"
  "reviewTypes (snd (received topic partition' m w)) = reviewTypes w"
  by (simp_all add: received_apply)

lemma handleMessage_unfold:
  "handleMessage env topic partition' m w =
     (let w0 = snd (received topic partition' m w) in
      case JSON_parse env (m_value m) of
        Inl e \<Rightarrow> (Inr (), w0\<lparr>logs := logs w0 @ [(LError, Msg ''Invalid message JSON.''), (LError, Err e)]\<rparr>)
      | Inr messageJSON \<Rightarrow>
         (case js_get messageJSON ''topic'' of
            Inl e \<Rightarrow> (Inl e, w0)
          | Inr t \<Rightarrow>
             if t \<noteq> JStr topic then
               logger LError (Msg (''The message topic '' @ ToString t
                 @ '' doesn't match the Kafka topic '' @ topic @ ''.'')) w0
             else
               (case status_filter env messageJSON of
                  Inl e \<Rightarrow> (Inl e, w0)
                | Inr skip \<Rightarrow>
                   if skip then
                     bind (lift (js_get messageJSON ''payload'')) (\<lambda>payload.
                     bind (lift (js_get payload ''status'')) (\<lambda>status.
                       logger LDebug (Msg (''Ignoring message in topic '' @ ToString t
                         @ '' with status '' @ ToString status)))) w0
                   else
                     (case fileType_filter env topic messageJSON of
                        Inl e \<Rightarrow> (Inl e, w0)
                      | Inr skip' \<Rightarrow>
                         if skip' then
                           logger LDebug (Msg (''Ignoring message in topic '' @ ToString t
                             @ '' with file type as url'')) w0
                         else
                           (case workflow env topic messageJSON w0 of
                              (Inl err, w1) \<Rightarrow> (Inr (), w1\<lparr>logs := logs w1 @ [(LError, Err err)]\<rparr>)
                            | (Inr u, w1) \<Rightarrow>
                                (Inr (), w1\<lparr>trace := trace w1 @ [CommitOffset topic partition' (m_offset m)]\<rparr>))))))"
  unfolding handleMessage_def Let_def
  by (simp add: bind_apply[of "received topic partition' m"] received_apply
      bind_apply[of "lift r" for r] bind_apply[of "logger lvl a" for lvl a]
      bind_apply[of "workflow env topic j" for j]
      catch_apply lift_apply logger_apply emit_apply
      split: sum.splits prod.splits)

lemmas handleMessage_eval = handleMessage_unfold[unfolded Let_def]

lemma dataHandler_append:
  "dataHandler env (xs @ ys) topic partition' w =
     (case dataHandler env xs topic partition' w of
        (Inl e, w1) \<Rightarrow> (Inl e, w1)
      | (Inr u, w1) \<Rightarrow> dataHandler env ys topic partition' w1)"
  by (induction xs arbitrary: w) (auto simp: bind_def ret_def split: prod.splits sum.splits)

lemma dataHandler_Cons:
  "dataHandler env (m # ms) topic partition' w =
     (case handleMessage env topic partition' m w of
        (Inl e, w1) \<Rightarrow> (Inl e, w1)
      | (Inr u, w1) \<Rightarrow> dataHandler env ms topic partition' w1)"
  by (simp add: bind_apply)

lemma handleMessage_commits:
  fixes env :: env and m :: kafka_message and topic :: string and partition' :: int
  defines "completes \<equiv> \<lambda>w. (\<exists>messageJSON.
             JSON_parse env (m_value m) = Inr messageJSON
           \<and> js_get messageJSON ''topic'' = Inr (JStr topic)
           \<and> status_filter env messageJSON = Inr False
           \<and> fileType_filter env topic messageJSON = Inr False
           \<and> fst (workflow env topic messageJSON (snd (received topic partition' m w))) = Inr ())"
  shows "\<exists>evs. trace (snd (handleMessage env topic partition' m w)) = trace w @ evs
             \<and> commits evs = (if completes w then [CommitOffset topic partition' (m_offset m)] else [])"
proof -
  define w0 where "w0 = snd (received topic partition' m w)"
  have w0: "trace w0 = trace w"
    by (simp add: w0_def received_world)
  have none: "\<exists>evs. trace w' = trace w @ evs \<and> commits evs = []" if "trace w' = trace w" for w' :: world
  proof -
    from that have "trace w' = trace w @ [] \<and> commits [] = []"
      by (simp add: commits_def)
    then show ?thesis
      by blast
  qed
  show ?thesis
  proof (cases "JSON_parse env (m_value m)")
    case (Inl e)
    then have "\<not> completes w"
      by (simp add: completes_def)
    moreover have "trace (snd (handleMessage env topic partition' m w)) = trace w"
      using Inl by (simp add: handleMessage_eval received_world)
    ultimately show ?thesis
      using none by simp
  next
    case parsed: (Inr messageJSON)
    show ?thesis
    proof (cases "js_get messageJSON ''topic'' = Inr (JStr topic)")
      case False
      then have "\<not> completes w"
        using parsed by (simp add: completes_def)
      moreover have "trace (snd (handleMessage env topic partition' m w)) = trace w"
        using parsed False
        by (auto simp: handleMessage_eval received_world logger_apply split: sum.splits)
      ultimately show ?thesis
        using none by simp
    next
      case topic: True
      show ?thesis
      proof (cases "status_filter env messageJSON = Inr False")
        case False
        then have "\<not> completes w"
          using parsed by (simp add: completes_def)
        moreover have "trace (snd (handleMessage env topic partition' m w)) = trace w"
          using parsed topic False
          by (auto simp: handleMessage_eval received_world io_simps split: sum.splits)
        ultimately show ?thesis
          using none by simp
      next
        case status: True
        show ?thesis
        proof (cases "fileType_filter env topic messageJSON = Inr False")
          case False
          then have "\<not> completes w"
            using parsed by (simp add: completes_def)
          moreover have "trace (snd (handleMessage env topic partition' m w)) = trace w"
            using parsed topic status False
            by (auto simp: handleMessage_eval received_world io_simps split: sum.splits)
          ultimately show ?thesis
            using none by simp
        next
          case fileType: True
          from quiet_workflow[of env topic messageJSON] obtain evs
            where evs: "trace (snd (workflow env topic messageJSON w0)) = trace w0 @ evs"
              and no: "commits evs = []"
            unfolding quiet_def by blast
          obtain r w1 where run: "workflow env topic messageJSON w0 = (r, w1)"
            by (cases "workflow env topic messageJSON w0")
          have same: "completes w \<longleftrightarrow> r = Inr ()"
            using parsed topic status fileType run
            by (simp add: completes_def w0_def[symmetric])
          show ?thesis
          proof (cases r)
            case (Inl err)
            then have "trace (snd (handleMessage env topic partition' m w)) = trace w @ evs"
              using parsed topic status fileType run evs w0
              by (simp add: handleMessage_eval w0_def[symmetric])
            moreover have "\<not> completes w"
              using same Inl by simp
            ultimately show ?thesis
              using no by auto
          next
            case (Inr u)
            then have "trace (snd (handleMessage env topic partition' m w))
                = trace w @ (evs @ [CommitOffset topic partition' (m_offset m)])"
              using parsed topic status fileType run evs w0
              by (simp add: handleMessage_eval w0_def[symmetric])
            moreover have "commits (evs @ [CommitOffset topic partition' (m_offset m)])
                = [CommitOffset topic partition' (m_offset m)]"
              using no by (simp add: commits_def)
            moreover have "completes w"
              using same Inr by simp
            ultimately show ?thesis
              by auto
          qed
        qed
      qed
    qed
  qed
qed

text \<open>
  C1. Take any message of a batch that the dispatcher reaches, that is, whose predecessors
  were handled without an exception. The calls made while handling it contain exactly one
  offset commit, for the message's own offset on its topic and partition, if the message
  decodes, its envelope topic is the arrival topic, neither filter skips it and the routed
  workflow completes; in every other case (decode failure, topic mismatch, a filter skip, an
  exception in the filters or in the workflow) they contain no commit at all. The batch then
  goes on with the next message, or ends with the exception that left the handler.
\<close>

theorem dispatcher_commits_iff_workflow_completes:
  fixes env :: env and m :: kafka_message and topic :: string and partition' :: int
  defines "completes \<equiv> \<lambda>w. (\<exists>messageJSON.
             JSON_parse env (m_value m) = Inr messageJSON
           \<and> js_get messageJSON ''topic'' = Inr (JStr topic)
           \<and> status_filter env messageJSON = Inr False
           \<and> fileType_filter env topic messageJSON = Inr False
           \<and> fst (workflow env topic messageJSON (snd (received topic partition' m w))) = Inr ())"
  assumes reached: "dataHandler env earlier topic partition' w = (Inr (), w1)"
  shows "(\<exists>evs. trace (snd (handleMessage env topic partition' m w1)) = trace w1 @ evs
             \<and> commits evs = (if completes w1 then [CommitOffset topic partition' (m_offset m)] else []))
       \<and> dataHandler env (earlier @ m # later) topic partition' w =
           (case handleMessage env topic partition' m w1 of
              (Inl e, w2) \<Rightarrow> (Inl e, w2)
            | (Inr u, w2) \<Rightarrow> dataHandler env later topic partition' w2)"
proof -
  have "dataHandler env (earlier @ m # later) topic partition' w =
           (case handleMessage env topic partition' m w1 of
              (Inl e, w2) \<Rightarrow> (Inl e, w2)
            | (Inr u, w2) \<Rightarrow> dataHandler env later topic partition' w2)"
    using reached by (simp add: dataHandler_append bind_apply)
  then show ?thesis
    using handleMessage_commits[of env topic partition' m w1]
    unfolding completes_def by blast
qed

text \<open>
  C4. When the bytes of a message do not parse as JSON, the handler returns normally (the
  batch goes on with the next message), makes no call at all, so commits nothing, and logs
  the error: two error records, the fixed text and the parser's exception, after the record
  of the received message.
\<close>

theorem malformed_JSON_logged_not_committed:
  assumes "JSON_parse env (m_value m) = Inl e"
  shows "fst (handleMessage env topic partition' m w) = Inr ()
       \<and> trace (snd (handleMessage env topic partition' m w)) = trace w
       \<and> logs (snd (handleMessage env topic partition' m w)) =
           logs (snd (received topic partition' m w))
             @ [(LError, Msg ''Invalid message JSON.''), (LError, Err e)]
       \<and> s3 (snd (handleMessage env topic partition' m w)) = s3 w
       \<and> dataHandler env (m # later) topic partition' w =
           dataHandler env later topic partition' (snd (handleMessage env topic partition' m w))"
proof -
  have "handleMessage env topic partition' m w =
      (Inr (), (snd (received topic partition' m w))
         \<lparr>logs := logs (snd (received topic partition' m w))
            @ [(LError, Msg ''Invalid message JSON.''), (LError, Err e)]\<rparr>)"
    using assms by (simp add: handleMessage_eval)
  then show ?thesis
    by (simp add: bind_apply received_world)
qed

text \<open>
  C5. A message that parses to an object whose \<open>topic\<close> is the arrival topic but which has
  no \<open>payload\<close>, arriving on the scan or the create topic, makes the handler throw a
  TypeError while it evaluates the status (or file type) filter: the exception leaves the
  handler and ends the batch, no workflow is routed, nothing is committed and no error is
  logged. The witness exhibits such a message.
\<close>

theorem missing_payload_throws_TypeError:
  assumes parse: "JSON_parse env (m_value m) = Inr (JObj props)"
    and topic: "map_of props ''topic'' = Some (JStr topic)"
    and payload: "map_of props ''payload'' = None"
    and subscribed: "topic = AVSCAN_TOPIC env \<or> topic = SUBMISSION_CREATE_TOPIC env"
  shows "handleMessage env topic partition' m w =
           (Inl (TypeError (if topic = AVSCAN_TOPIC env then ''status'' else ''fileType'')),
            snd (received topic partition' m w))
       \<and> trace (snd (handleMessage env topic partition' m w)) = trace w
       \<and> logs (snd (handleMessage env topic partition' m w)) = logs (snd (received topic partition' m w))
       \<and> dataHandler env (m # later) topic partition' w =
           (Inl (TypeError (if topic = AVSCAN_TOPIC env then ''status'' else ''fileType'')),
            snd (received topic partition' m w))"
proof -
  have "handleMessage env topic partition' m w =
           (Inl (TypeError (if topic = AVSCAN_TOPIC env then ''status'' else ''fileType'')),
            snd (received topic partition' m w))"
    using assms
    by (auto simp: handleMessage_eval status_filter_def fileType_filter_def js_get_def)
  then show ?thesis
    by (simp add: bind_apply received_world)
qed

theorem dispatcher_commits_iff_workflow_completes_witness:
  "dataHandler demo_env [] ''avscan.action.scan'' 0 staged_world = (Inr (), staged_world)
   \<and> commits (trace (snd (handleMessage demo_env ''avscan.action.scan'' 0
         \<lparr>m_offset = 7, m_value = scan_text\<rparr> staged_world)))
       = [CommitOffset ''avscan.action.scan'' 0 7]
   \<and> dataHandler demo_env [] ''avscan.action.scan'' 0 fresh_world = (Inr (), fresh_world)
   \<and> commits (trace (snd (handleMessage demo_env ''avscan.action.scan'' 0
         \<lparr>m_offset = 7, m_value = scan_text\<rparr> fresh_world)))
       = []"
proof -
  let ?topic = "''avscan.action.scan''"
  let ?m = "\<lparr>m_offset = 7, m_value = scan_text\<rparr>"
  have start: "dataHandler demo_env [] ?topic 0 w = (Inr (), w)" for w
    by (simp add: ret_def)
  have parse: "JSON_parse demo_env (m_value ?m) = Inr scan_json"
    by (simp add: demo_defs)
  have pass: "js_get scan_json ''topic'' = Inr (JStr ?topic)"
    "status_filter demo_env scan_json = Inr False"
    "fileType_filter demo_env ?topic scan_json = Inr False"
    by (simp_all add: status_filter_def fileType_filter_def js_get_def demo_defs)
  have completed: "fst (workflow demo_env ?topic scan_json (snd (received ?topic 0 ?m staged_world))) = Inr ()"
    by (simp add: workflow_def processScan_def received_apply run_defs demo_defs)
  have thrown: "fst (workflow demo_env ?topic scan_json (snd (received ?topic 0 ?m fresh_world)))
      = Inl (ServiceError (Some 404) ''NoSuchKey'')"
    by (simp add: workflow_def processScan_def received_apply run_defs demo_defs)
  have t0: "trace staged_world = []" "trace fresh_world = []"
    by (simp_all add: demo_defs)
  have yes: "commits (trace (snd (handleMessage demo_env ?topic 0 ?m staged_world)))
       = [CommitOffset ?topic 0 7]"
    using dispatcher_commits_iff_workflow_completes[OF start, of ?m staged_world]
      parse pass completed t0
    by auto
  have no: "commits (trace (snd (handleMessage demo_env ?topic 0 ?m fresh_world))) = []"
    using dispatcher_commits_iff_workflow_completes[OF start, of ?m fresh_world]
      parse pass thrown t0
    by auto
  from start yes no show ?thesis
    by blast
qed

theorem malformed_JSON_logged_not_committed_witness:
  "JSON_parse demo_env (m_value \<lparr>m_offset = 8, m_value = ''{not json''\<rparr>)
     = Inl (SyntaxError ''Unexpected token'')
   \<and> fst (handleMessage demo_env ''avscan.action.scan'' 0 \<lparr>m_offset = 8, m_value = ''{not json''\<rparr> staged_world)
     = Inr ()
   \<and> trace (snd (handleMessage demo_env ''avscan.action.scan'' 0
        \<lparr>m_offset = 8, m_value = ''{not json''\<rparr> staged_world)) = []
   \<and> logs (snd (handleMessage demo_env ''avscan.action.scan'' 0
        \<lparr>m_offset = 8, m_value = ''{not json''\<rparr> staged_world)) =
       [(LInfo, Msg ''Handle Kafka event message; Topic: avscan.action.scan; Partition: 0; Offset: 8; Message: {not json.''),
        (LError, Msg ''Invalid message JSON.''),
        (LError, Err (SyntaxError ''Unexpected token''))]"
proof -
  let ?m = "\<lparr>m_offset = 8, m_value = ''{not json''\<rparr>"
  have bad: "JSON_parse demo_env (m_value ?m) = Inl (SyntaxError ''Unexpected token'')"
    by (simp add: demo_defs)
  have first: "logs (snd (received ''avscan.action.scan'' 0 ?m staged_world)) =
      [(LInfo, Msg ''Handle Kafka event message; Topic: avscan.action.scan; Partition: 0; Offset: 8; Message: {not json.'')]"
    by (simp add: received_apply digits.simps demo_defs)
  have "trace staged_world = []"
    by (simp add: demo_defs)
  with malformed_JSON_logged_not_committed[OF bad, of "''avscan.action.scan''" 0 staged_world] bad first
  show ?thesis
    by simp
qed

theorem missing_payload_throws_TypeError_witness:
  "JSON_parse demo_env (m_value \<lparr>m_offset = 9, m_value = bare_text\<rparr>)
     = Inr (JObj [(''topic'', JStr ''avscan.action.scan'')])
   \<and> fst (handleMessage demo_env ''avscan.action.scan'' 0 \<lparr>m_offset = 9, m_value = bare_text\<rparr> staged_world)
     = Inl (TypeError ''status'')
   \<and> trace (snd (handleMessage demo_env ''avscan.action.scan'' 0
        \<lparr>m_offset = 9, m_value = bare_text\<rparr> staged_world)) = []
   \<and> logs (snd (handleMessage demo_env ''avscan.action.scan'' 0
        \<lparr>m_offset = 9, m_value = bare_text\<rparr> staged_world)) =
       [(LInfo, Msg (''Handle Kafka event message; Topic: avscan.action.scan; Partition: 0; Offset: 9; Message: ''
                      @ bare_text @ ''.''))]
   \<and> fst (dataHandler demo_env
          [\<lparr>m_offset = 9, m_value = bare_text\<rparr>, \<lparr>m_offset = 10, m_value = scan_text\<rparr>]
          ''avscan.action.scan'' 0 staged_world)
     = Inl (TypeError ''status'')"
proof -
  let ?m = "\<lparr>m_offset = 9, m_value = bare_text\<rparr>"
  let ?props = "[(''topic'', JStr ''avscan.action.scan'')]"
  have parse: "JSON_parse demo_env (m_value ?m) = Inr (JObj ?props)"
    by (simp add: demo_defs)
  have topic: "map_of ?props ''topic'' = Some (JStr ''avscan.action.scan'')"
    and payload: "map_of ?props ''payload'' = None"
    and subscribed: "''avscan.action.scan'' = AVSCAN_TOPIC demo_env
        \<or> ''avscan.action.scan'' = SUBMISSION_CREATE_TOPIC demo_env"
    by (simp_all add: demo_defs)
  have first: "logs (snd (received ''avscan.action.scan'' 0 ?m staged_world)) =
      [(LInfo, Msg (''Handle Kafka event message; Topic: avscan.action.scan; Partition: 0; Offset: 9; Message: ''
                      @ bare_text @ ''.''))]"
    by (simp add: received_apply digits.simps staged_world_def)
  have "trace staged_world = []" "AVSCAN_TOPIC demo_env = ''avscan.action.scan''"
    by (simp_all add: demo_defs)
  with missing_payload_throws_TypeError[OF parse topic payload subscribed, of 0 staged_world
      "[\<lparr>m_offset = 10, m_value = scan_text\<rparr>]"] parse first
  show ?thesis
    by (simp add: received_world)
qed

end
